theory Spec2Isabelle
  imports Main
begin

section \<open>The profile router of careerConnector\<close>

text \<open>
  The router (ten Express routes over the Mongoose models Profile, User and Post) is
  embedded with explicit state passing: every handler takes the caller's input and the
  document store and returns the HTTP response together with the store it leaves.
  An exception of the JavaScript is a value of \<open>js_error\<close>; the handler's
  \<^verbatim>\<open>try { ... } catch\<close> turns it into the response the catch block sends.

  A JavaScript string is a \<open>string\<close> whose characters are read as code units
  below 256; a request field is a \<open>string option\<close>, \<open>None\<close> for a
  field the request does not carry (\<^verbatim>\<open>undefined\<close>).
\<close>

subsection \<open>JavaScript strings\<close>

text \<open>\<^verbatim>\<open>if (x)\<close> on a request field: undefined and the empty string are falsy.\<close>

definition truthy :: "string option \<Rightarrow> bool" where
  "truthy v = (case v of None \<Rightarrow> False | Some s \<Rightarrow> s \<noteq> [])"

text \<open>
  \<^verbatim>\<open>String.prototype.split(',')\<close>: the segments between the separators, in order;
  a string without separator (also the empty string) is its own single segment.
\<close>

fun split_on :: "char \<Rightarrow> string \<Rightarrow> string list" where
  "split_on c [] = [[]]"
| "split_on c (x # xs) =
     (if x = c then [] # split_on c xs
      else (case split_on c xs of
              [] \<Rightarrow> [[x]]
            | seg # segs \<Rightarrow> (x # seg) # segs))"

text \<open>
  The white space and line terminators that \<^verbatim>\<open>String.prototype.trim\<close> strips,
  among the code units below 256: TAB, LF, VT, FF, CR, SP and NBSP.
\<close>

definition is_js_space :: "char \<Rightarrow> bool" where
  "is_js_space c = (of_char c \<in> {9, 10, 11, 12, 13, 32, 160 :: nat})"

definition trim :: "string \<Rightarrow> string" where
  "trim s = rev (dropWhile is_js_space (rev (dropWhile is_js_space s)))"

text \<open>
  \<^verbatim>\<open>Array.prototype.indexOf\<close>: the first position holding the value, -1 when no
  position does.
\<close>

fun indexOf :: "'a list \<Rightarrow> 'a \<Rightarrow> int" where
  "indexOf [] v = -1"
| "indexOf (x # xs) v =
     (if x = v then 0
      else (let i = indexOf xs v in if i < 0 then -1 else i + 1))"

text \<open>
  \<^verbatim>\<open>Array.prototype.splice(start, deleteCount)\<close>: a negative start counts from the
  end of the array (clamped at 0), a start beyond the end is the end; at most the
  elements that remain from there are deleted.
\<close>

definition splice :: "int \<Rightarrow> int \<Rightarrow> 'a list \<Rightarrow> 'a list" where
  "splice start deleteCount xs =
     (let len = int (length xs);
          actualStart = (if start < 0 then max (len + start) 0 else min start len);
          actualDeleteCount = min (max deleteCount 0) (len - actualStart)
      in take (nat actualStart) xs @ drop (nat (actualStart + actualDeleteCount)) xs)"

subsection \<open>Object ids\<close>

text \<open>
  Mongoose casts the value of a query on an ObjectId path: a string of 24 hexadecimal
  digits (in either case) or a string of 12 code units (read as the 12 bytes) names an
  ObjectId, every other string raises a CastError of kind ObjectId. An ObjectId is kept
  in its canonical form, the 24 lower-case hexadecimal digits.
\<close>

type_synonym objectId = string

definition is_hex :: "char \<Rightarrow> bool" where
  "is_hex c = (c \<in> set ''0123456789abcdefABCDEF'')"

definition lower_hex :: "char \<Rightarrow> char" where
  "lower_hex c =
     (if c = CHR ''A'' then CHR ''a'' else if c = CHR ''B'' then CHR ''b''
      else if c = CHR ''C'' then CHR ''c'' else if c = CHR ''D'' then CHR ''d''
      else if c = CHR ''E'' then CHR ''e'' else if c = CHR ''F'' then CHR ''f''
      else c)"

definition hex_digit :: "nat \<Rightarrow> char" where
  "hex_digit k = ''0123456789abcdef'' ! (k mod 16)"

definition hex_byte :: "char \<Rightarrow> string" where
  "hex_byte c = [hex_digit (of_char c div 16), hex_digit (of_char c mod 16)]"

datatype http_failure = NetworkFailure | HttpStatus nat

datatype js_error =
    CastError
  | TypeError
  | ConfigError
  | AxiosError http_failure

definition castObjectId :: "string \<Rightarrow> js_error + objectId" where
  "castObjectId s =
     (if length s = 24 \<and> list_all is_hex s then Inr (map lower_hex s)
      else if length s = 12 then Inr (concat (map hex_byte s))
      else Inl CastError)"

subsection \<open>Documents and the store\<close>

text \<open>
  Modelled from the spec: the schemas of models/Profile, models/User and models/Post
  are not among the sources; the documents carry the fields the spec's data model
  lists and the fields the router reads and writes. Field values are kept as the
  strings the request gave.
\<close>

record social =
  youtube :: "string option"
  twitter :: "string option"
  linkedin :: "string option"
  facebook :: "string option"
  instagram :: "string option"

record experience =
  exp_id :: string
  exp_title :: "string option"
  exp_company :: "string option"
  exp_location :: "string option"
  exp_from :: "string option"
  exp_to :: "string option"
  exp_current :: "string option"
  exp_description :: "string option"

record education_entry =
  edu_id :: string
  edu_school :: "string option"
  edu_degree :: "string option"
  edu_fieldOfStudy :: "string option"
  edu_from :: "string option"
  edu_to :: "string option"
  edu_current :: "string option"
  edu_description :: "string option"

record profile =
  user :: objectId
  company :: "string option"
  website :: "string option"
  location :: "string option"
  bio :: "string option"
  status :: "string option"
  githubusername :: "string option"
  skills :: "string list"
  social :: social
  experiences :: "experience list"
  education :: "education_entry list"

record user_doc =
  user_name :: string
  user_avatar :: string

record post =
  post_user :: objectId
  post_body :: string

text \<open>
  The three collections. A collection is the list of its documents in insertion order;
  a document's position stands for its \<^verbatim>\<open>_id\<close>, which the router never reads.
  The User collection is keyed by \<^verbatim>\<open>_id\<close>, which the database keeps unique.
\<close>

record store =
  profiles :: "profile list"
  users :: "objectId \<rightharpoonup> user_doc"
  posts :: "post list"

text \<open>\<^verbatim>\<open>Profile.findOne({ user: id })\<close>: the first profile of that user with its position.\<close>

fun find_index_of :: "('a \<Rightarrow> bool) \<Rightarrow> 'a list \<Rightarrow> nat option" where
  "find_index_of P [] = None"
| "find_index_of P (x # xs) =
     (if P x then Some 0
      else (case find_index_of P xs of None \<Rightarrow> None | Some i \<Rightarrow> Some (Suc i)))"

definition findOne :: "string \<Rightarrow> profile list \<Rightarrow> js_error + (nat \<times> profile) option" where
  "findOne uid ps =
     (case castObjectId uid of
        Inl e \<Rightarrow> Inl e
      | Inr oid \<Rightarrow>
          (case find_index_of (\<lambda>p. user p = oid) ps of
             None \<Rightarrow> Inr None
           | Some i \<Rightarrow> Inr (Some (i, ps ! i))))"

text \<open>\<^verbatim>\<open>Profile.find({ user: id })\<close>: all profiles of that user.\<close>

definition findAll :: "string \<Rightarrow> profile list \<Rightarrow> js_error + profile list" where
  "findAll uid ps =
     (case castObjectId uid of
        Inl e \<Rightarrow> Inl e
      | Inr oid \<Rightarrow> Inr (filter (\<lambda>p. user p = oid) ps))"

text \<open>\<^verbatim>\<open>doc.save()\<close> of a document read from the collection writes it back in its place.\<close>

definition save_at :: "nat \<Rightarrow> profile \<Rightarrow> profile list \<Rightarrow> profile list" where
  "save_at i p ps = ps[i := p]"

text \<open>\<^verbatim>\<open>findOneAndRemove\<close>: the first matching document leaves the collection.\<close>

fun remove_first :: "('a \<Rightarrow> bool) \<Rightarrow> 'a list \<Rightarrow> 'a list" where
  "remove_first P [] = []"
| "remove_first P (x # xs) = (if P x then xs else x # remove_first P xs)"

subsection \<open>Responses\<close>

record field_error =
  err_param :: string
  err_msg :: string

record populated =
  pop_profile :: profile
  pop_user :: "user_doc option"

datatype payload =
    ProfileJson profile
  | NullJson
  | PopulatedJson populated
  | PopulatedListJson "populated list"
  | MsgJson string
  | ErrorsJson "field_error list"
  | PlainBody string
  | DataJson string

type_synonym response = "nat \<times> payload"

text \<open>\<^verbatim>\<open>.populate('user', ['name', 'avatar'])\<close>: the user reference joined with its document.\<close>

definition populate :: "store \<Rightarrow> profile \<Rightarrow> populated" where
  "populate s p = \<lparr>pop_profile = p, pop_user = users s (user p)\<rparr>"

text \<open>\<^verbatim>\<open>check(field, msg).not().isEmpty()\<close>: an error for a field that is absent or empty.\<close>

definition check_not_empty :: "string \<Rightarrow> string \<Rightarrow> string option \<Rightarrow> field_error list" where
  "check_not_empty param msg v =
     (if truthy v then [] else [\<lparr>err_param = param, err_msg = msg\<rparr>])"


subsection \<open>POST /: create or update the caller's profile\<close>

record profile_body =
  b_company :: "string option"
  b_website :: "string option"
  b_location :: "string option"
  b_bio :: "string option"
  b_status :: "string option"
  b_githubusername :: "string option"
  b_skills :: "string option"
  b_youtube :: "string option"
  b_facebook :: "string option"
  b_twitter :: "string option"
  b_instagram :: "string option"
  b_linkedin :: "string option"

text \<open>
  The object \<^verbatim>\<open>profilefields\<close>: a key is present (\<open>Some\<close>) only when the
  handler assigned it; \<^verbatim>\<open>user\<close> and \<^verbatim>\<open>social\<close> are always assigned.
\<close>

record profilefields =
  pf_user :: string
  pf_company :: "string option"
  pf_website :: "string option"
  pf_location :: "string option"
  pf_bio :: "string option"
  pf_status :: "string option"
  pf_githubusername :: "string option"
  pf_skills :: "string list option"
  pf_social :: social

definition validate_profile :: "profile_body \<Rightarrow> field_error list" where
  "validate_profile b =
     check_not_empty ''status'' ''Status is required'' (b_status b) @
     check_not_empty ''skills'' ''Skills is required'' (b_skills b)"

definition if_given :: "string option \<Rightarrow> string option" where
  "if_given v = (if truthy v then v else None)"

definition build_social :: "profile_body \<Rightarrow> social" where
  "build_social b =
     \<lparr>youtube = if_given (b_youtube b),
      twitter = if_given (b_twitter b),
      linkedin = if_given (b_linkedin b),
      facebook = if_given (b_facebook b),
      instagram = if_given (b_instagram b)\<rparr>"

definition build_profilefields :: "string \<Rightarrow> profile_body \<Rightarrow> profilefields" where
  "build_profilefields uid b =
     \<lparr>pf_user = uid,
      pf_company = if_given (b_company b),
      pf_website = if_given (b_website b),
      pf_location = if_given (b_location b),
      pf_bio = if_given (b_bio b),
      pf_status = if_given (b_status b),
      pf_githubusername = if_given (b_githubusername b),
      pf_skills =
        (case b_skills b of
           None \<Rightarrow> None
         | Some sk \<Rightarrow> if sk \<noteq> [] then Some (map trim (split_on CHR '','' sk)) else None),
      pf_social = build_social b\<rparr>"

definition or_else :: "'a option \<Rightarrow> 'a option \<Rightarrow> 'a option" where
  "or_else new old = (case new of None \<Rightarrow> old | Some v \<Rightarrow> Some v)"

text \<open>
  \<^verbatim>\<open>{ $set: profilefields }\<close>: each key of the object overwrites the document's
  field, the nested object \<^verbatim>\<open>social\<close> as a whole; a key the object lacks leaves
  the document's field as it is.
\<close>

definition set_fields :: "profilefields \<Rightarrow> profile \<Rightarrow> js_error + profile" where
  "set_fields pf p =
     (case castObjectId (pf_user pf) of
        Inl e \<Rightarrow> Inl e
      | Inr oid \<Rightarrow>
          Inr (p\<lparr>user := oid,
                 company := or_else (pf_company pf) (company p),
                 website := or_else (pf_website pf) (website p),
                 location := or_else (pf_location pf) (location p),
                 bio := or_else (pf_bio pf) (bio p),
                 status := or_else (pf_status pf) (status p),
                 githubusername := or_else (pf_githubusername pf) (githubusername p),
                 skills := (case pf_skills pf of None \<Rightarrow> skills p | Some sk \<Rightarrow> sk),
                 social := pf_social pf\<rparr>))"

text \<open>
  \<^verbatim>\<open>Profile.findOneAndUpdate({ user: id }, { $set: profilefields }, { new: true })\<close>:
  the first profile of the user is updated where it stands and returned as updated;
  without such a profile nothing is written and the result is null.
\<close>

definition findOneAndUpdate ::
  "string \<Rightarrow> profilefields \<Rightarrow> profile list \<Rightarrow> js_error + (profile list \<times> profile option)" where
  "findOneAndUpdate uid pf ps =
     (case findOne uid ps of
        Inl e \<Rightarrow> Inl e
      | Inr None \<Rightarrow> Inr (ps, None)
      | Inr (Some (i, p)) \<Rightarrow>
          (case set_fields pf p of
             Inl e \<Rightarrow> Inl e
           | Inr p' \<Rightarrow> Inr (ps[i := p'], Some p')))"

text \<open>\<^verbatim>\<open>new Profile(profilefields)\<close>: a fresh document with empty sequences.\<close>

definition new_profile :: "profilefields \<Rightarrow> js_error + profile" where
  "new_profile pf =
     (case castObjectId (pf_user pf) of
        Inl e \<Rightarrow> Inl e
      | Inr oid \<Rightarrow>
          Inr \<lparr>user = oid,
               company = pf_company pf,
               website = pf_website pf,
               location = pf_location pf,
               bio = pf_bio pf,
               status = pf_status pf,
               githubusername = pf_githubusername pf,
               skills = (case pf_skills pf of None \<Rightarrow> [] | Some sk \<Rightarrow> sk),
               social = pf_social pf,
               experiences = [],
               education = []\<rparr>)"

text \<open>The \<^verbatim>\<open>try\<close> block of the handler: the response body and the store it leaves.\<close>

definition upsertProfile_try ::
  "string \<Rightarrow> profilefields \<Rightarrow> store \<Rightarrow> js_error + (payload \<times> store)" where
  "upsertProfile_try uid pf s =
     (case findOne uid (profiles s) of
        Inl e \<Rightarrow> Inl e
      | Inr (Some found) \<Rightarrow>
          (case findOneAndUpdate uid pf (profiles s) of
             Inl e \<Rightarrow> Inl e
           | Inr (ps', None) \<Rightarrow> Inr (NullJson, s\<lparr>profiles := ps'\<rparr>)
           | Inr (ps', Some p') \<Rightarrow> Inr (ProfileJson p', s\<lparr>profiles := ps'\<rparr>))
      | Inr None \<Rightarrow>
          (case new_profile pf of
             Inl e \<Rightarrow> Inl e
           | Inr p \<Rightarrow> Inr (ProfileJson p, s\<lparr>profiles := profiles s @ [p]\<rparr>)))"

definition upsertProfile :: "string \<Rightarrow> profile_body \<Rightarrow> store \<Rightarrow> response \<times> store" where
  "upsertProfile uid b s =
     (let errors = validate_profile b in
      if errors \<noteq> [] then ((400, ErrorsJson errors), s)
      else
        (case upsertProfile_try uid (build_profilefields uid b) s of
           Inl e \<Rightarrow> ((500, PlainBody ''Server error''), s)
         | Inr (body, s') \<Rightarrow> ((200, body), s')))"


subsection \<open>GET /me, GET / and GET /user/:user_id\<close>

definition getOwnProfile :: "string \<Rightarrow> store \<Rightarrow> response" where
  "getOwnProfile uid s =
     (case findOne uid (profiles s) of
        Inl e \<Rightarrow> (500, PlainBody ''Server error!'')
      | Inr None \<Rightarrow> (400, MsgJson ''There is no profile for this user!'')
      | Inr (Some (i, p)) \<Rightarrow> (200, PopulatedJson (populate s p)))"

definition listProfiles :: "store \<Rightarrow> response" where
  "listProfiles s = (200, PopulatedListJson (map (populate s) (profiles s)))"

text \<open>
  The handler of the complete router reads the profile with \<^verbatim>\<open>findOne\<close> and then
  tests \<^verbatim>\<open>profile.length === 0\<close>: on null the property read raises a TypeError; on a
  document the property is undefined, which is not 0, and the document is sent.
  The catch block answers 400 to an error of kind ObjectId and 500 to every other.
\<close>

definition getProfileByUser_try :: "string \<Rightarrow> store \<Rightarrow> js_error + response" where
  "getProfileByUser_try uid s =
     (case findOne uid (profiles s) of
        Inl e \<Rightarrow> Inl e
      | Inr None \<Rightarrow> Inl TypeError
      | Inr (Some (i, p)) \<Rightarrow> Inr (200, PopulatedJson (populate s p)))"

definition profile_catch :: "js_error \<Rightarrow> response" where
  "profile_catch e =
     (if e = CastError then (400, MsgJson ''Profile not found!'')
      else (500, PlainBody ''Server Error!''))"

definition getProfileByUser :: "string \<Rightarrow> store \<Rightarrow> response" where
  "getProfileByUser uid s =
     (case getProfileByUser_try uid s of Inl e \<Rightarrow> profile_catch e | Inr r \<Rightarrow> r)"

text \<open>
  The earlier router in routes/api/profile.js reads with \<^verbatim>\<open>find\<close>, whose result is
  an array, and makes the same test on it.
\<close>

definition getProfileByUser_find_try :: "string \<Rightarrow> store \<Rightarrow> js_error + response" where
  "getProfileByUser_find_try uid s =
     (case findAll uid (profiles s) of
        Inl e \<Rightarrow> Inl e
      | Inr found \<Rightarrow>
          if length found = 0 then Inr (400, MsgJson ''Profile not found!'')
          else Inr (200, PopulatedListJson (map (populate s) found)))"

definition getProfileByUser_find :: "string \<Rightarrow> store \<Rightarrow> response" where
  "getProfileByUser_find uid s =
     (case getProfileByUser_find_try uid s of Inl e \<Rightarrow> profile_catch e | Inr r \<Rightarrow> r)"

subsection \<open>DELETE /: the caller's posts, profile and user\<close>

datatype db_op =
    PostDeleteMany string
  | ProfileFindOneAndRemove string
  | UserFindOneAndRemove string

fun exec_op :: "db_op \<Rightarrow> store \<Rightarrow> js_error + store" where
  "exec_op (PostDeleteMany uid) s =
     (case castObjectId uid of
        Inl e \<Rightarrow> Inl e
      | Inr oid \<Rightarrow> Inr (s\<lparr>posts := filter (\<lambda>q. post_user q \<noteq> oid) (posts s)\<rparr>))"
| "exec_op (ProfileFindOneAndRemove uid) s =
     (case castObjectId uid of
        Inl e \<Rightarrow> Inl e
      | Inr oid \<Rightarrow> Inr (s\<lparr>profiles := remove_first (\<lambda>p. user p = oid) (profiles s)\<rparr>))"
| "exec_op (UserFindOneAndRemove uid) s =
     (case castObjectId uid of
        Inl e \<Rightarrow> Inl e
      | Inr oid \<Rightarrow> Inr (s\<lparr>users := (users s)(oid := None)\<rparr>))"

text \<open>
  The awaited operations run one after the other; the first that raises ends the
  \<^verbatim>\<open>try\<close> block, and what the earlier ones wrote stays written.
\<close>

fun run_ops :: "db_op list \<Rightarrow> store \<Rightarrow> js_error option \<times> store" where
  "run_ops [] s = (None, s)"
| "run_ops (x # xs) s =
     (case exec_op x s of Inl e \<Rightarrow> (Some e, s) | Inr s' \<Rightarrow> run_ops xs s')"

definition deleteOwnProfile_ops :: "string \<Rightarrow> db_op list" where
  "deleteOwnProfile_ops uid =
     [PostDeleteMany uid, ProfileFindOneAndRemove uid, UserFindOneAndRemove uid]"

definition deleteOwnProfile :: "string \<Rightarrow> store \<Rightarrow> response \<times> store" where
  "deleteOwnProfile uid s =
     (case run_ops (deleteOwnProfile_ops uid) s of
        (Some e, s') \<Rightarrow> ((500, PlainBody ''Server Error!''), s')
      | (None, s') \<Rightarrow> ((200, MsgJson ''User removed!''), s'))"

subsection \<open>PUT and DELETE on /experience and /education\<close>

record experience_body =
  eb_title :: "string option"
  eb_company :: "string option"
  eb_location :: "string option"
  eb_from :: "string option"
  eb_to :: "string option"
  eb_current :: "string option"
  eb_description :: "string option"

record education_body =
  db_school :: "string option"
  db_degree :: "string option"
  db_fieldOfStudy :: "string option"
  db_from :: "string option"
  db_to :: "string option"
  db_current :: "string option"
  db_description :: "string option"

definition validate_experience :: "experience_body \<Rightarrow> field_error list" where
  "validate_experience b =
     check_not_empty ''title'' ''Title is required'' (eb_title b) @
     check_not_empty ''company'' ''Company is required'' (eb_company b) @
     check_not_empty ''from'' ''From date is required'' (eb_from b)"

definition validate_education :: "education_body \<Rightarrow> field_error list" where
  "validate_education b =
     check_not_empty ''school'' ''School is required'' (db_school b) @
     check_not_empty ''degree'' ''Degree is required'' (db_degree b) @
     check_not_empty ''fieldOfStudy'' ''Field of study is required'' (db_fieldOfStudy b) @
     check_not_empty ''from'' ''From date is required'' (db_from b)"

text \<open>
  \<^verbatim>\<open>newExp\<close> and \<^verbatim>\<open>newEdu\<close>: the request's fields. The entry's identifier is
  the one the document array gives the entry when it is inserted; it is an input of
  the handler here.
\<close>

definition newExp :: "string \<Rightarrow> experience_body \<Rightarrow> experience" where
  "newExp new_id b =
     \<lparr>exp_id = new_id,
      exp_title = eb_title b,
      exp_company = eb_company b,
      exp_location = eb_location b,
      exp_from = eb_from b,
      exp_to = eb_to b,
      exp_current = eb_current b,
      exp_description = eb_description b\<rparr>"

definition newEdu :: "string \<Rightarrow> education_body \<Rightarrow> education_entry" where
  "newEdu new_id b =
     \<lparr>edu_id = new_id,
      edu_school = db_school b,
      edu_degree = db_degree b,
      edu_fieldOfStudy = db_fieldOfStudy b,
      edu_from = db_from b,
      edu_to = db_to b,
      edu_current = db_current b,
      edu_description = db_description b\<rparr>"

text \<open>
  The four \<^verbatim>\<open>try\<close> blocks share their shape: read the caller's profile (a property
  read on null raises a TypeError), change one sequence, save, send the profile.
\<close>

definition modify_profile ::
  "string \<Rightarrow> (profile \<Rightarrow> profile) \<Rightarrow> store \<Rightarrow> js_error + (profile \<times> store)" where
  "modify_profile uid f s =
     (case findOne uid (profiles s) of
        Inl e \<Rightarrow> Inl e
      | Inr None \<Rightarrow> Inl TypeError
      | Inr (Some (i, p)) \<Rightarrow> Inr (f p, s\<lparr>profiles := save_at i (f p) (profiles s)\<rparr>))"

definition send_profile ::
  "string \<Rightarrow> store \<Rightarrow> js_error + (profile \<times> store) \<Rightarrow> response \<times> store" where
  "send_profile server_error s r =
     (case r of
        Inl e \<Rightarrow> ((500, PlainBody server_error), s)
      | Inr (p, s') \<Rightarrow> ((200, ProfileJson p), s'))"

definition addExperience ::
  "string \<Rightarrow> experience_body \<Rightarrow> string \<Rightarrow> store \<Rightarrow> response \<times> store" where
  "addExperience uid b new_id s =
     (let errors = validate_experience b in
      if errors \<noteq> [] then ((400, ErrorsJson errors), s)
      else send_profile ''Server error!!'' s
             (modify_profile uid
                (\<lambda>p. p\<lparr>experiences := newExp new_id b # experiences p\<rparr>) s))"

definition addEducation ::
  "string \<Rightarrow> education_body \<Rightarrow> string \<Rightarrow> store \<Rightarrow> response \<times> store" where
  "addEducation uid b new_id s =
     (let errors = validate_education b in
      if errors \<noteq> [] then ((400, ErrorsJson errors), s)
      else send_profile ''Server error!!'' s
             (modify_profile uid
                (\<lambda>p. p\<lparr>education := newEdu new_id b # education p\<rparr>) s))"

definition remove_experience_entry :: "string \<Rightarrow> experience list \<Rightarrow> experience list" where
  "remove_experience_entry entry_id es =
     (let removeIndex = indexOf (map exp_id es) entry_id
      in splice removeIndex 1 es)"

definition remove_education_entry ::
  "string \<Rightarrow> education_entry list \<Rightarrow> education_entry list" where
  "remove_education_entry entry_id es =
     (let removeIndex = indexOf (map edu_id es) entry_id
      in splice removeIndex 1 es)"

definition removeExperience :: "string \<Rightarrow> string \<Rightarrow> store \<Rightarrow> response \<times> store" where
  "removeExperience uid entry_id s =
     send_profile ''Server error!'' s
       (modify_profile uid
          (\<lambda>p. p\<lparr>experiences := remove_experience_entry entry_id (experiences p)\<rparr>) s)"

definition removeEducation :: "string \<Rightarrow> string \<Rightarrow> store \<Rightarrow> response \<times> store" where
  "removeEducation uid entry_id s =
     send_profile ''Server error!'' s
       (modify_profile uid
          (\<lambda>p. p\<lparr>education := remove_education_entry entry_id (education p)\<rparr>) s)"


subsection \<open>GET /github/:username\<close>

text \<open>
  \<^verbatim>\<open>encodeURI\<close>: letters, digits and the reserved and mark characters of a URI stay;
  every other code unit is written as the escaped bytes of its UTF-8 form (one byte
  below 128, two bytes from 128 to 255).
\<close>

definition uri_unescaped :: "char \<Rightarrow> bool" where
  "uri_unescaped c =
     (let n = (of_char c :: nat)
      in (65 \<le> n \<and> n \<le> 90) \<or> (97 \<le> n \<and> n \<le> 122) \<or> (48 \<le> n \<and> n \<le> 57) \<or>
         n = 39 \<or> c \<in> set '';/?:@&=+$,-_.!~*()#'')"

definition upper_hex_digit :: "nat \<Rightarrow> char" where
  "upper_hex_digit k = ''0123456789ABCDEF'' ! (k mod 16)"

definition percent_byte :: "nat \<Rightarrow> string" where
  "percent_byte n = [CHR ''%'', upper_hex_digit (n div 16), upper_hex_digit (n mod 16)]"

definition utf8_bytes :: "nat \<Rightarrow> nat list" where
  "utf8_bytes n = (if n < 128 then [n] else [192 + n div 64, 128 + n mod 64])"

definition encodeURI :: "string \<Rightarrow> string" where
  "encodeURI s =
     concat (map (\<lambda>c. if uri_unescaped c then [c]
                       else concat (map percent_byte (utf8_bytes (of_char c)))) s)"

text \<open>
  The outside world of this handler: the configuration (\<^verbatim>\<open>config.get\<close> raises on
  a key without value) and the HTTP client, which answers a URI and headers with the
  response data or fails.
\<close>

record config =
  githubToken :: "string option"

type_synonym headers = "(string \<times> string) list"

type_synonym axios = "string \<Rightarrow> headers \<Rightarrow> http_failure + string"

definition github_uri :: "string \<Rightarrow> string" where
  "github_uri username =
     encodeURI (''https://api.github.com/users/'' @ username @
                ''/repos?per_page=5&sort=created:asc'')"

definition github_headers :: "string \<Rightarrow> headers" where
  "github_headers token =
     [(''user-agent'', ''node.js''), (''Authorization'', ''token '' @ token)]"

definition fetchGithubRepos_try :: "axios \<Rightarrow> config \<Rightarrow> string \<Rightarrow> js_error + string" where
  "fetchGithubRepos_try axios_get cfg username =
     (let uri = github_uri username in
      case githubToken cfg of
        None \<Rightarrow> Inl ConfigError
      | Some token \<Rightarrow>
          (case axios_get uri (github_headers token) of
             Inl failure \<Rightarrow> Inl (AxiosError failure)
           | Inr data \<Rightarrow> Inr data))"

definition fetchGithubRepos :: "axios \<Rightarrow> config \<Rightarrow> string \<Rightarrow> response" where
  "fetchGithubRepos axios_get cfg username =
     (case fetchGithubRepos_try axios_get cfg username of
        Inl e \<Rightarrow> (404, MsgJson ''No Github profile found!!!!'')
      | Inr data \<Rightarrow> (200, DataJson data))"

subsection \<open>Sequences of writing requests\<close>

datatype request =
    UpsertProfile string profile_body
  | AddExperience string experience_body string
  | AddEducation string education_body string
  | RemoveExperience string string
  | RemoveEducation string string
  | DeleteOwnProfile string

fun handle :: "request \<Rightarrow> store \<Rightarrow> response \<times> store" where
  "handle (UpsertProfile uid b) s = upsertProfile uid b s"
| "handle (AddExperience uid b new_id) s = addExperience uid b new_id s"
| "handle (AddEducation uid b new_id) s = addEducation uid b new_id s"
| "handle (RemoveExperience uid entry_id) s = removeExperience uid entry_id s"
| "handle (RemoveEducation uid entry_id) s = removeEducation uid entry_id s"
| "handle (DeleteOwnProfile uid) s = deleteOwnProfile uid s"

fun serve :: "request list \<Rightarrow> store \<Rightarrow> store" where
  "serve [] s = s"
| "serve (r # rs) s = serve rs (snd (handle r s))"

text \<open>The invariant of the Profile collection: at most one profile for each user.\<close>

definition one_profile_per_user :: "store \<Rightarrow> bool" where
  "one_profile_per_user s = distinct (map user (profiles s))"

subsection \<open>Example data\<close>

definition no_fields :: profile_body where
  "no_fields =
     \<lparr>b_company = None, b_website = None, b_location = None, b_bio = None,
      b_status = None, b_githubusername = None, b_skills = None, b_youtube = None,
      b_facebook = None, b_twitter = None, b_instagram = None, b_linkedin = None\<rparr>"

definition empty_store :: store where
  "empty_store = \<lparr>profiles = [], users = Map.empty, posts = []\<rparr>"

definition alice :: string where
  "alice = ''5f1a2b3c4d5e6f7a8b9c0d1e''"

definition alice_profile :: profile where
  "alice_profile =
     \<lparr>user = alice, company = Some ''Acme'', website = Some ''acme.example'',
      location = Some ''Oslo'', bio = Some ''Builds things'', status = Some ''Developer'',
      githubusername = Some ''alice'', skills = [''node'', ''react''],
      social = \<lparr>youtube = Some ''yt/alice'', twitter = Some ''tw/alice'', linkedin = None,
                facebook = None, instagram = None\<rparr>,
      experiences = [], education = []\<rparr>"

definition alice_store :: store where
  "alice_store =
     \<lparr>profiles = [alice_profile],
      users = [alice \<mapsto> \<lparr>user_name = ''Alice'', user_avatar = ''alice.png''\<rparr>],
      posts = [\<lparr>post_user = alice, post_body = ''hello''\<rparr>]\<rparr>"

definition first_post :: profile_body where
  "first_post = no_fields\<lparr>b_status := Some ''Developer'',
                           b_skills := Some ''node, react , express''\<rparr>"

definition second_post :: profile_body where
  "second_post = no_fields\<lparr>b_status := Some ''Senior developer'', b_skills := Some ''go'',
                            b_linkedin := Some ''in/alice''\<rparr>"

definition exp_one :: experience_body where
  "exp_one =
     \<lparr>eb_title = Some ''Engineer'', eb_company = Some ''Acme'', eb_location = None,
      eb_from = Some ''2019-01-01'', eb_to = Some ''2020-01-01'', eb_current = None,
      eb_description = None\<rparr>"

definition exp_two :: experience_body where
  "exp_two =
     \<lparr>eb_title = Some ''Lead'', eb_company = Some ''Initech'', eb_location = Some ''Oslo'',
      eb_from = Some ''2020-02-01'', eb_to = None, eb_current = Some ''true'',
      eb_description = None\<rparr>"

definition edu_one :: education_body where
  "edu_one =
     \<lparr>db_school = Some ''NTNU'', db_degree = Some ''BSc'', db_fieldOfStudy = Some ''Informatics'',
      db_from = Some ''2012-08-01'', db_to = Some ''2015-06-01'', db_current = None,
      db_description = None\<rparr>"

definition edu_two :: education_body where
  "edu_two =
     \<lparr>db_school = Some ''UiO'', db_degree = Some ''MSc'', db_fieldOfStudy = Some ''Logic'',
      db_from = Some ''2015-08-01'', db_to = Some ''2017-06-01'', db_current = None,
      db_description = None\<rparr>"

definition worked_profile :: profile where
  "worked_profile =
     alice_profile\<lparr>experiences := [newExp ''e2'' exp_two, newExp ''e1'' exp_one],
                    education := [newEdu ''d2'' edu_two, newEdu ''d1'' edu_one]\<rparr>"

definition worked_store :: store where
  "worked_store = alice_store\<lparr>profiles := [worked_profile]\<rparr>"

definition bob :: string where
  "bob = ''0123456789abcdef01234567''"

definition busy_day :: "request list" where
  "busy_day =
     [UpsertProfile alice first_post, UpsertProfile alice second_post,
      AddExperience alice exp_one ''e1'', UpsertProfile bob first_post,
      RemoveExperience alice ''e1'', UpsertProfile alice first_post,
      DeleteOwnProfile bob, UpsertProfile bob second_post]"

subsection \<open>The request the spec describes for the GitHub listing\<close>

text \<open>
  The query of a URI: what follows its first question mark, read as pairs
  \<^verbatim>\<open>key=value\<close> separated by \<^verbatim>\<open>&\<close>.
\<close>

definition uri_query :: "string \<Rightarrow> (string \<times> string) list" where
  "uri_query uri =
     map (\<lambda>kv. (takeWhile (\<lambda>c. c \<noteq> CHR ''='') kv,
                 drop 1 (dropWhile (\<lambda>c. c \<noteq> CHR ''='') kv)))
         (split_on CHR ''&'' (drop 1 (dropWhile (\<lambda>c. c \<noteq> CHR ''?'') uri)))"

text \<open>
  The location of a URI: what precedes its query and its fragment.
\<close>

definition uri_location :: "string \<Rightarrow> string" where
  "uri_location uri = takeWhile (\<lambda>c. c \<noteq> CHR ''?'' \<and> c \<noteq> CHR ''#'') uri"

text \<open>
  Following the spec's words, "the 5 most recently created repositories": a listing
  request asks for them when a page holds 5 entries and the listing is ordered by
  creation time, the newest first. In the parameters of GitHub's repository listing
  that is \<^verbatim>\<open>per_page=5\<close>, \<^verbatim>\<open>sort=created\<close> and a direction that is
  \<^verbatim>\<open>desc\<close> or left to the default of that sort.
\<close>

definition spec_five_most_recently_created :: "(string \<times> string) list \<Rightarrow> bool" where
  "spec_five_most_recently_created q =
     (map_of q ''per_page'' = Some ''5'' \<and> map_of q ''sort'' = Some ''created'' \<and>
      (map_of q ''direction'' = None \<or> map_of q ''direction'' = Some ''desc''))"

definition demo_config :: config where
  "demo_config = \<lparr>githubToken = Some ''s3cr3t''\<rparr>"

text \<open>A stand-in for the HTTP client that knows one request only.\<close>

definition octocat_only :: axios where
  "octocat_only uri hs =
     (if uri = ''https://api.github.com/users/octocat/repos?per_page=5&sort=created:asc'' \<and>
         hs = [(''user-agent'', ''node.js''), (''Authorization'', ''token s3cr3t'')]
      then Inr ''[]'' else Inl (HttpStatus 404))"

section \<open>Properties of the handlers\<close>

subsection \<open>Reading the Profile collection\<close>

lemma find_index_of_Some:
  "find_index_of P xs = Some i \<Longrightarrow> i < length xs \<and> P (xs ! i) \<and> (\<forall>j<i. \<not> P (xs ! j))"
proof (induction xs arbitrary: i)
  case Nil
  then show ?case by simp
next
  case (Cons x xs)
  show ?case
  proof (cases "P x")
    case True
    with Cons.prems show ?thesis by simp
  next
    case False
    with Cons.prems obtain k where k: "find_index_of P xs = Some k" "i = Suc k"
      by (auto split: option.splits)
    from Cons.IH [OF k(1)] False k(2) show ?thesis
      by (auto simp: less_Suc_eq_0_disj)
  qed
qed

lemma find_index_of_None: "find_index_of P xs = None \<longleftrightarrow> (\<forall>x\<in>set xs. \<not> P x)"
  by (induction xs) (auto split: option.splits)

lemma find_index_of_append_new:
  "find_index_of P xs = None \<Longrightarrow> P y \<Longrightarrow> find_index_of P (xs @ [y]) = Some (length xs)"
  by (induction xs) (auto split: option.splits if_splits)

lemma find_index_of_update:
  "find_index_of P xs = Some i \<Longrightarrow> P y \<Longrightarrow> find_index_of P (xs[i := y]) = Some i"
proof (induction xs arbitrary: i)
  case Nil
  then show ?case by simp
next
  case (Cons x xs)
  then show ?case
    by (cases "P x") (auto split: option.splits)
qed

lemma findOne_cast:
  "castObjectId uid = Inr oid \<Longrightarrow>
   findOne uid ps =
     (case find_index_of (\<lambda>p. user p = oid) ps of
        None \<Rightarrow> Inr None | Some i \<Rightarrow> Inr (Some (i, ps ! i)))"
  by (simp add: findOne_def)

lemma findOne_found:
  "findOne uid ps = Inr (Some (i, p)) \<Longrightarrow>
   \<exists>oid. castObjectId uid = Inr oid \<and> find_index_of (\<lambda>p. user p = oid) ps = Some i \<and>
         i < length ps \<and> p = ps ! i \<and> user p = oid"
  by (auto simp: findOne_def split: sum.splits option.splits dest: find_index_of_Some)

lemma findOne_absent:
  "findOne uid ps = Inr None \<Longrightarrow>
   \<exists>oid. castObjectId uid = Inr oid \<and> find_index_of (\<lambda>p. user p = oid) ps = None"
  by (auto simp: findOne_def split: sum.splits option.splits)

subsection \<open>POST /\<close>

lemma validate_profile_ok:
  "validate_profile b = [] \<longleftrightarrow> truthy (b_status b) \<and> truthy (b_skills b)"
  by (simp add: validate_profile_def check_not_empty_def)

lemma upsertProfile_invalid:
  "validate_profile b \<noteq> [] \<Longrightarrow>
   upsertProfile uid b s = ((400, ErrorsJson (validate_profile b)), s)"
  by (simp add: upsertProfile_def)

lemma upsertProfile_update:
  assumes "findOne uid (profiles s) = Inr (Some (i, p))" and "validate_profile b = []"
  shows "\<exists>p'. set_fields (build_profilefields uid b) p = Inr p' \<and>
           upsertProfile uid b s =
             ((200, ProfileJson p'), s\<lparr>profiles := (profiles s)[i := p']\<rparr>)"
proof -
  from findOne_found [OF assms(1)] obtain oid where
    oid: "castObjectId uid = Inr oid" by blast
  then obtain p' where p': "set_fields (build_profilefields uid b) p = Inr p'"
    by (simp add: set_fields_def build_profilefields_def)
  with assms show ?thesis
    by (simp add: upsertProfile_def upsertProfile_try_def findOneAndUpdate_def)
qed

lemma upsertProfile_create:
  assumes "findOne uid (profiles s) = Inr None" and "validate_profile b = []"
  shows "\<exists>p. new_profile (build_profilefields uid b) = Inr p \<and>
           upsertProfile uid b s =
             ((200, ProfileJson p), s\<lparr>profiles := profiles s @ [p]\<rparr>)"
proof -
  from findOne_absent [OF assms(1)] obtain oid where
    oid: "castObjectId uid = Inr oid" by blast
  then obtain p where p: "new_profile (build_profilefields uid b) = Inr p"
    by (simp add: new_profile_def build_profilefields_def)
  with assms show ?thesis
    by (simp add: upsertProfile_def upsertProfile_try_def)
qed

text \<open>
  C5. A POST whose body has neither a status nor skills (each missing or empty) is
  answered with HTTP 400 and the list of both field errors, status first, and the
  store is left as it was.
\<close>

theorem upsertProfile_missing_required:
  assumes "b_status b = None \<or> b_status b = Some []"
    and "b_skills b = None \<or> b_skills b = Some []"
  shows "upsertProfile uid b s =
           ((400, ErrorsJson [\<lparr>err_param = ''status'', err_msg = ''Status is required''\<rparr>,
                              \<lparr>err_param = ''skills'', err_msg = ''Skills is required''\<rparr>]),
            s)"
proof -
  from assms have "\<not> truthy (b_status b)" and "\<not> truthy (b_skills b)"
    by (auto simp: truthy_def)
  then have "validate_profile b =
      [\<lparr>err_param = ''status'', err_msg = ''Status is required''\<rparr>,
       \<lparr>err_param = ''skills'', err_msg = ''Skills is required''\<rparr>]"
    by (simp add: validate_profile_def check_not_empty_def)
  then show ?thesis by (simp add: upsertProfile_def)
qed

theorem upsertProfile_missing_required_witness:
  "b_status (no_fields\<lparr>b_skills := Some []\<rparr>) = None \<and>
   b_skills (no_fields\<lparr>b_skills := Some []\<rparr>) = Some [] \<and>
   upsertProfile alice (no_fields\<lparr>b_skills := Some []\<rparr>) empty_store =
     ((400, ErrorsJson [\<lparr>err_param = ''status'', err_msg = ''Status is required''\<rparr>,
                        \<lparr>err_param = ''skills'', err_msg = ''Skills is required''\<rparr>]),
      empty_store)"
  using upsertProfile_missing_required [of "no_fields\<lparr>b_skills := Some []\<rparr>" alice empty_store]
  by (simp add: no_fields_def)

subsection \<open>The example data\<close>

lemma cast_alice: "castObjectId alice = Inr alice"
  by (simp add: castObjectId_def alice_def is_hex_def lower_hex_def)

lemma findOne_alice_empty: "findOne alice (profiles empty_store) = Inr None"
  by (simp add: findOne_def cast_alice empty_store_def)

lemma findOne_alice_store: "findOne alice (profiles alice_store) = Inr (Some (0, alice_profile))"
  by (simp add: findOne_def cast_alice alice_store_def alice_profile_def)

subsection \<open>Splitting and trimming\<close>

text \<open>
  The segments of a split, each prefixed with the separator again, are the input
  prefixed with the separator: nothing is lost and no segment holds a separator.
\<close>

lemma split_on_prefixed: "concat (map ((#) c) (split_on c s)) = c # s"
  by (induction s) (auto split: list.splits)

lemma split_on_no_separator: "seg \<in> set (split_on c s) \<Longrightarrow> c \<notin> set seg"
  by (induction s arbitrary: seg) (auto split: list.splits if_splits)

lemma trim_decompose:
  "\<exists>a b. s = a @ trim s @ b \<and> list_all is_js_space a \<and> list_all is_js_space b"
proof -
  let ?a = "takeWhile is_js_space s"
  let ?r = "dropWhile is_js_space s"
  let ?b = "rev (takeWhile is_js_space (rev ?r))"
  have "?r = trim s @ ?b"
    unfolding trim_def by (metis rev_append rev_rev_ident takeWhile_dropWhile_id)
  then have "s = ?a @ trim s @ ?b"
    by (metis takeWhile_dropWhile_id)
  moreover have "list_all is_js_space ?a" and "list_all is_js_space ?b"
    by (auto simp: list_all_iff dest: set_takeWhileD)
  ultimately show ?thesis by blast
qed

lemma trim_set: "set (trim s) \<subseteq> set s"
  unfolding trim_def by (auto dest!: set_dropWhileD)

lemma trim_edges:
  "trim s \<noteq> [] \<Longrightarrow> \<not> is_js_space (hd (trim s)) \<and> \<not> is_js_space (last (trim s))"
proof -
  assume ne: "trim s \<noteq> []"
  let ?r = "dropWhile is_js_space s"
  let ?q = "dropWhile is_js_space (rev ?r)"
  from ne have q: "?q \<noteq> []" by (simp add: trim_def)
  then have "\<not> is_js_space (hd ?q)" by (rule hd_dropWhile)
  then have l: "\<not> is_js_space (last (trim s))"
    using q by (simp add: trim_def last_rev)
  from q have r: "?r \<noteq> []"
    by (metis dropWhile.simps(1) rev.simps(1))
  then have h: "\<not> is_js_space (hd ?r)" by (rule hd_dropWhile)
  have "rev ?r = takeWhile is_js_space (rev ?r) @ ?q" by simp
  then have "?r = trim s @ rev (takeWhile is_js_space (rev ?r))"
    unfolding trim_def by (metis rev_append rev_rev_ident)
  with ne have "hd ?r = hd (trim s)" by (metis hd_append2)
  with h l show ?thesis by simp
qed

lemma trim_idem: "trim (trim s) = trim s"
proof (cases "trim s = []")
  case True
  have "trim [] = []" by (simp add: trim_def)
  with True show ?thesis by simp
next
  case False
  from trim_edges [OF False] have h: "\<not> is_js_space (hd (trim s))"
    and l: "\<not> is_js_space (last (trim s))" by auto
  from False h have 1: "dropWhile is_js_space (trim s) = trim s"
    by (cases "trim s") auto
  from False l have 2: "dropWhile is_js_space (rev (trim s)) = rev (trim s)"
    by (cases "rev (trim s)") (auto simp: last_rev [symmetric] hd_rev)
  show ?thesis
    unfolding trim_def [of "trim s"] 1 2 by simp
qed

text \<open>
  C4. On a successful create (no profile of the caller yet, status and skills given)
  the stored skills are the segments of the input between its commas, each trimmed of
  surrounding white space: a list whose elements hold no comma and no surrounding white
  space, not the raw string. The input "node, react , express" is stored as the three
  skills node, react and express.
\<close>

theorem upsertProfile_create_skills:
  assumes "findOne uid (profiles s) = Inr None"
    and "truthy (b_status b)" and "b_skills b = Some sk" and "sk \<noteq> []"
  shows "\<exists>p. upsertProfile uid b s = ((200, ProfileJson p), s\<lparr>profiles := profiles s @ [p]\<rparr>) \<and>
             skills p = map trim (split_on CHR '','' sk) \<and>
             (\<forall>x\<in>set (skills p). CHR '','' \<notin> set x \<and> trim x = x)"
proof -
  from assms have valid: "validate_profile b = []"
    by (simp add: validate_profile_ok truthy_def)
  from upsertProfile_create [OF assms(1) valid] obtain p where
    p: "new_profile (build_profilefields uid b) = Inr p"
    and up: "upsertProfile uid b s = ((200, ProfileJson p), s\<lparr>profiles := profiles s @ [p]\<rparr>)"
    by blast
  from p assms(3,4) have sk: "skills p = map trim (split_on CHR '','' sk)"
    by (auto simp: new_profile_def build_profilefields_def split: sum.splits)
  have "CHR '','' \<notin> set x \<and> trim x = x" if "x \<in> set (skills p)" for x
  proof -
    from that sk obtain seg where seg: "seg \<in> set (split_on CHR '','' sk)" "x = trim seg"
      by auto
    from split_on_no_separator [OF seg(1)] trim_set [of seg] seg(2)
    show ?thesis by (auto simp: trim_idem)
  qed
  with up sk show ?thesis by blast
qed

theorem upsertProfile_create_skills_witness:
  "findOne alice (profiles empty_store) = Inr None \<and>
   truthy (b_status first_post) \<and>
   b_skills first_post = Some ''node, react , express'' \<and>
   (\<exists>p. upsertProfile alice first_post empty_store =
          ((200, ProfileJson p), empty_store\<lparr>profiles := profiles empty_store @ [p]\<rparr>) \<and>
        skills p = [''node'', ''react'', ''express''])"
proof -
  have h: "findOne alice (profiles empty_store) = Inr None"
    by (rule findOne_alice_empty)
  have t: "truthy (b_status first_post)"
    and k: "b_skills first_post = Some ''node, react , express''"
    by (simp_all add: first_post_def no_fields_def truthy_def)
  have v: "map trim (split_on CHR '','' ''node, react , express'') =
           [''node'', ''react'', ''express'']"
    by (simp add: trim_def is_js_space_def)
  from upsertProfile_create_skills [OF h t k] v h t k show ?thesis
    by auto
qed

subsection \<open>What an update keeps and what it replaces\<close>

lemma set_fields_user:
  "castObjectId uid = Inr oid \<Longrightarrow> set_fields (build_profilefields uid b) p = Inr p' \<Longrightarrow>
   user p' = oid"
  by (auto simp: set_fields_def build_profilefields_def)

lemma set_fields_social:
  "set_fields (build_profilefields uid b) p = Inr p' \<Longrightarrow> social p' = build_social b"
  by (auto simp: set_fields_def build_profilefields_def split: sum.splits)

lemma new_profile_user:
  "castObjectId uid = Inr oid \<Longrightarrow> new_profile (build_profilefields uid b) = Inr p \<Longrightarrow>
   user p = oid"
  by (auto simp: new_profile_def build_profilefields_def)

lemma new_profile_social:
  "new_profile (build_profilefields uid b) = Inr p \<Longrightarrow> social p = build_social b"
  by (auto simp: new_profile_def build_profilefields_def split: sum.splits)

lemma set_fields_omitted:
  assumes "set_fields (build_profilefields uid b) p = Inr p'"
  shows "b_company b = None \<longrightarrow> company p' = company p"
    and "b_website b = None \<longrightarrow> website p' = website p"
    and "b_location b = None \<longrightarrow> location p' = location p"
    and "b_bio b = None \<longrightarrow> bio p' = bio p"
    and "b_githubusername b = None \<longrightarrow> githubusername p' = githubusername p"
  using assms
  by (auto simp: set_fields_def build_profilefields_def if_given_def or_else_def truthy_def
      split: sum.splits)

lemma map_user_update:
  "i < length ps \<Longrightarrow> user p' = user (ps ! i) \<Longrightarrow> map user (ps[i := p']) = map user ps"
  by (metis list_update_id map_update)

lemma set_fields_result:
  assumes "set_fields pf p = Inr p'"
  shows "company p' = or_else (pf_company pf) (company p)"
    and "website p' = or_else (pf_website pf) (website p)"
    and "location p' = or_else (pf_location pf) (location p)"
    and "bio p' = or_else (pf_bio pf) (bio p)"
    and "status p' = or_else (pf_status pf) (status p)"
    and "githubusername p' = or_else (pf_githubusername pf) (githubusername p)"
    and "skills p' = (case pf_skills pf of None \<Rightarrow> skills p | Some sk \<Rightarrow> sk)"
    and "experiences p' = experiences p" and "education p' = education p"
proof -
  from assms obtain oid where "castObjectId (pf_user pf) = Inr oid"
    by (cases "castObjectId (pf_user pf)") (simp_all add: set_fields_def)
  with assms have p': "p' = p\<lparr>user := oid,
                 company := or_else (pf_company pf) (company p),
                 website := or_else (pf_website pf) (website p),
                 location := or_else (pf_location pf) (location p),
                 bio := or_else (pf_bio pf) (bio p),
                 status := or_else (pf_status pf) (status p),
                 githubusername := or_else (pf_githubusername pf) (githubusername p),
                 skills := (case pf_skills pf of None \<Rightarrow> skills p | Some sk \<Rightarrow> sk),
                 social := pf_social pf\<rparr>"
    by (simp add: set_fields_def)
  show "company p' = or_else (pf_company pf) (company p)" by (simp add: p')
  show "website p' = or_else (pf_website pf) (website p)" by (simp add: p')
  show "location p' = or_else (pf_location pf) (location p)" by (simp add: p')
  show "bio p' = or_else (pf_bio pf) (bio p)" by (simp add: p')
  show "status p' = or_else (pf_status pf) (status p)" by (simp add: p')
  show "githubusername p' = or_else (pf_githubusername pf) (githubusername p)" by (simp add: p')
  show "skills p' = (case pf_skills pf of None \<Rightarrow> skills p | Some sk \<Rightarrow> sk)" by (simp add: p')
  show "experiences p' = experiences p" by (simp add: p')
  show "education p' = education p" by (simp add: p')
qed

lemma or_else_given: "truthy v \<Longrightarrow> or_else (if_given v) old = v"
  by (cases v) (simp_all add: or_else_def if_given_def truthy_def)

lemma set_fields_given:
  assumes "set_fields (build_profilefields uid b) p = Inr p'"
  shows "truthy (b_company b) \<longrightarrow> company p' = b_company b"
    and "truthy (b_website b) \<longrightarrow> website p' = b_website b"
    and "truthy (b_location b) \<longrightarrow> location p' = b_location b"
    and "truthy (b_bio b) \<longrightarrow> bio p' = b_bio b"
    and "truthy (b_githubusername b) \<longrightarrow> githubusername p' = b_githubusername b"
    and "truthy (b_status b) \<longrightarrow> status p' = b_status b"
    and "\<forall>sk. b_skills b = Some sk \<and> sk \<noteq> [] \<longrightarrow> skills p' = map trim (split_on CHR '','' sk)"
    and "experiences p' = experiences p" and "education p' = education p"
proof -
  note res = set_fields_result [OF assms]
  show "truthy (b_company b) \<longrightarrow> company p' = b_company b"
    by (simp add: res(1) build_profilefields_def or_else_given)
  show "truthy (b_website b) \<longrightarrow> website p' = b_website b"
    by (simp add: res(2) build_profilefields_def or_else_given)
  show "truthy (b_location b) \<longrightarrow> location p' = b_location b"
    by (simp add: res(3) build_profilefields_def or_else_given)
  show "truthy (b_bio b) \<longrightarrow> bio p' = b_bio b"
    by (simp add: res(4) build_profilefields_def or_else_given)
  show "truthy (b_githubusername b) \<longrightarrow> githubusername p' = b_githubusername b"
    by (simp add: res(6) build_profilefields_def or_else_given)
  show "truthy (b_status b) \<longrightarrow> status p' = b_status b"
    by (simp add: res(5) build_profilefields_def or_else_given)
  show "\<forall>sk. b_skills b = Some sk \<and> sk \<noteq> [] \<longrightarrow> skills p' = map trim (split_on CHR '','' sk)"
    by (simp add: res(7) build_profilefields_def)
  show "experiences p' = experiences p" by (rule res(8))
  show "education p' = education p" by (rule res(9))
qed

text \<open>
  C1. For a user who already has a profile, a POST leaves the collection with the same
  number of profiles and the same owners: the user's profile is still the one found, at
  the position it had, and every other profile is untouched. A valid request is
  answered 200 with the updated profile, which is written at that position: it has
  the status, the skills (split and trimmed) and the social object of the request, each
  of company, website, location, bio and githubusername that the request gives has the
  given value, and its experiences and education are as before. Each of company,
  website, location, bio and githubusername that the request omits keeps the value it
  had. A request that fails validation is answered 400 and writes nothing.
\<close>

theorem upsertProfile_update_in_place:
  assumes "findOne uid (profiles s) = Inr (Some (i, p))"
    and "upsertProfile uid b s = (r, s')"
  shows "\<exists>p'. findOne uid (profiles s') = Inr (Some (i, p')) \<and>
              length (profiles s') = length (profiles s) \<and>
              map user (profiles s') = map user (profiles s) \<and>
              (\<forall>j. j \<noteq> i \<longrightarrow> profiles s' ! j = profiles s ! j) \<and>
              (validate_profile b = [] \<longrightarrow> r = (200, ProfileJson p')) \<and>
              (b_company b = None \<longrightarrow> company p' = company p) \<and>
              (b_website b = None \<longrightarrow> website p' = website p) \<and>
              (b_location b = None \<longrightarrow> location p' = location p) \<and>
              (b_bio b = None \<longrightarrow> bio p' = bio p) \<and>
              (b_githubusername b = None \<longrightarrow> githubusername p' = githubusername p) \<and>
              (validate_profile b = [] \<longrightarrow>
                 s' = s\<lparr>profiles := (profiles s)[i := p']\<rparr> \<and>
                 user p' = user p \<and>
                 status p' = b_status b \<and>
                 (\<forall>sk. b_skills b = Some sk \<longrightarrow> skills p' = map trim (split_on CHR '','' sk)) \<and>
                 social p' = build_social b \<and>
                 experiences p' = experiences p \<and> education p' = education p \<and>
                 (truthy (b_company b) \<longrightarrow> company p' = b_company b) \<and>
                 (truthy (b_website b) \<longrightarrow> website p' = b_website b) \<and>
                 (truthy (b_location b) \<longrightarrow> location p' = b_location b) \<and>
                 (truthy (b_bio b) \<longrightarrow> bio p' = b_bio b) \<and>
                 (truthy (b_githubusername b) \<longrightarrow> githubusername p' = b_githubusername b)) \<and>
              (validate_profile b \<noteq> [] \<longrightarrow>
                 r = (400, ErrorsJson (validate_profile b)) \<and> s' = s \<and> p' = p)"
proof (cases "validate_profile b = []")
  case False
  with assms(2) have "s' = s" and "r = (400, ErrorsJson (validate_profile b))"
    by (simp_all add: upsertProfile_invalid)
  with assms(1) False show ?thesis by simp
next
  case True
  from findOne_found [OF assms(1)] obtain oid where
    oid: "castObjectId uid = Inr oid"
    and idx: "find_index_of (\<lambda>q. user q = oid) (profiles s) = Some i"
    and i: "i < length (profiles s)" and p: "p = profiles s ! i" "user p = oid"
    by blast
  from upsertProfile_update [OF assms(1) True] assms(2) obtain p' where
    p': "set_fields (build_profilefields uid b) p = Inr p'"
    and r: "r = (200, ProfileJson p')"
    and s': "s' = s\<lparr>profiles := (profiles s)[i := p']\<rparr>"
    by auto
  have u: "user p' = oid" by (rule set_fields_user [OF oid p'])
  from find_index_of_update [OF idx, of p'] u i
  have found: "findOne uid (profiles s') = Inr (Some (i, p'))"
    by (simp add: findOne_cast [OF oid] s')
  have owners: "map user (profiles s') = map user (profiles s)"
    using map_user_update [OF i, of p'] u p by (simp add: s')
  have others: "\<forall>j. j \<noteq> i \<longrightarrow> profiles s' ! j = profiles s ! j"
    by (simp add: s')
  have len: "length (profiles s') = length (profiles s)"
    by (simp add: s')
  from True have t: "truthy (b_status b)" "truthy (b_skills b)"
    by (simp_all add: validate_profile_ok)
  from t(1) set_fields_given(6) [OF p'] have st: "status p' = b_status b" by simp
  have sk: "\<forall>sk. b_skills b = Some sk \<longrightarrow> skills p' = map trim (split_on CHR '','' sk)"
    using t(2) set_fields_given(7) [OF p'] by (auto simp: truthy_def)
  have written: "s' = s\<lparr>profiles := (profiles s)[i := p']\<rparr>" by (rule s')
  have same_user: "user p' = user p" using u p by simp
  have valid: "s' = s\<lparr>profiles := (profiles s)[i := p']\<rparr> \<and>
                 user p' = user p \<and>
                 status p' = b_status b \<and>
                 (\<forall>sk. b_skills b = Some sk \<longrightarrow> skills p' = map trim (split_on CHR '','' sk)) \<and>
                 social p' = build_social b \<and>
                 experiences p' = experiences p \<and> education p' = education p \<and>
                 (truthy (b_company b) \<longrightarrow> company p' = b_company b) \<and>
                 (truthy (b_website b) \<longrightarrow> website p' = b_website b) \<and>
                 (truthy (b_location b) \<longrightarrow> location p' = b_location b) \<and>
                 (truthy (b_bio b) \<longrightarrow> bio p' = b_bio b) \<and>
                 (truthy (b_githubusername b) \<longrightarrow> githubusername p' = b_githubusername b)"
    by (intro conjI written same_user st sk set_fields_social [OF p']
        set_fields_given(1-5,8,9) [OF p'])
  have kept: "(b_company b = None \<longrightarrow> company p' = company p) \<and>
              (b_website b = None \<longrightarrow> website p' = website p) \<and>
              (b_location b = None \<longrightarrow> location p' = location p) \<and>
              (b_bio b = None \<longrightarrow> bio p' = bio p) \<and>
              (b_githubusername b = None \<longrightarrow> githubusername p' = githubusername p)"
    by (intro conjI set_fields_omitted [OF p'])
  from found len owners others r kept valid True show ?thesis
    by (intro exI [of _ p']) blast
qed

theorem upsertProfile_update_in_place_witness:
  "findOne alice (profiles alice_store) = Inr (Some (0, alice_profile)) \<and>
   validate_profile second_post = [] \<and>
   b_company second_post = None \<and> b_website second_post = None \<and>
   b_location second_post = None \<and> b_bio second_post = None \<and>
   b_githubusername second_post = None \<and>
   status alice_profile = Some ''Developer'' \<and> skills alice_profile = [''node'', ''react''] \<and>
   (\<exists>p'. findOne alice (profiles (snd (upsertProfile alice second_post alice_store))) =
            Inr (Some (0, p')) \<and>
          length (profiles (snd (upsertProfile alice second_post alice_store))) = 1 \<and>
          fst (upsertProfile alice second_post alice_store) = (200, ProfileJson p') \<and>
          snd (upsertProfile alice second_post alice_store) = alice_store\<lparr>profiles := [p']\<rparr> \<and>
          status p' = Some ''Senior developer'' \<and> skills p' = [''go''] \<and>
          linkedin (social p') = Some ''in/alice'' \<and>
          company p' = Some ''Acme'' \<and> website p' = Some ''acme.example'' \<and>
          location p' = Some ''Oslo'' \<and> bio p' = Some ''Builds things'' \<and>
          githubusername p' = Some ''alice'')"
proof -
  have b: "b_company second_post = None" "b_website second_post = None"
    "b_location second_post = None" "b_bio second_post = None"
    "b_githubusername second_post = None"
    "b_status second_post = Some ''Senior developer''" "b_skills second_post = Some ''go''"
    by (simp_all add: second_post_def no_fields_def)
  have v: "validate_profile second_post = []"
    by (simp add: validate_profile_ok truthy_def second_post_def no_fields_def)
  have a: "company alice_profile = Some ''Acme''" "website alice_profile = Some ''acme.example''"
    "location alice_profile = Some ''Oslo''" "bio alice_profile = Some ''Builds things''"
    "githubusername alice_profile = Some ''alice''"
    "status alice_profile = Some ''Developer''" "skills alice_profile = [''node'', ''react'']"
    by (simp_all add: alice_profile_def)
  have l: "profiles alice_store = [alice_profile]"
    by (simp add: alice_store_def)
  have g: "map trim (split_on CHR '','' ''go'') = [''go'']"
    by (simp add: trim_def is_js_space_def)
  have k: "linkedin (build_social second_post) = Some ''in/alice''"
    by (simp add: build_social_def if_given_def truthy_def second_post_def no_fields_def)
  from upsertProfile_update_in_place [OF findOne_alice_store surjective_pairing, of second_post]
  obtain p' where
    1: "findOne alice (profiles (snd (upsertProfile alice second_post alice_store))) =
          Inr (Some (0, p'))"
    and 2: "length (profiles (snd (upsertProfile alice second_post alice_store))) =
          length (profiles alice_store)"
    and 3: "validate_profile second_post = [] \<longrightarrow>
          fst (upsertProfile alice second_post alice_store) = (200, ProfileJson p')"
    and 4: "b_company second_post = None \<longrightarrow> company p' = company alice_profile"
      "b_website second_post = None \<longrightarrow> website p' = website alice_profile"
      "b_location second_post = None \<longrightarrow> location p' = location alice_profile"
      "b_bio second_post = None \<longrightarrow> bio p' = bio alice_profile"
      "b_githubusername second_post = None \<longrightarrow> githubusername p' = githubusername alice_profile"
    and 5: "validate_profile second_post = [] \<longrightarrow>
          snd (upsertProfile alice second_post alice_store) =
            alice_store\<lparr>profiles := (profiles alice_store)[0 := p']\<rparr> \<and>
          user p' = user alice_profile \<and>
          status p' = b_status second_post \<and>
          (\<forall>sk. b_skills second_post = Some sk \<longrightarrow> skills p' = map trim (split_on CHR '','' sk)) \<and>
          social p' = build_social second_post \<and>
          experiences p' = experiences alice_profile \<and>
          education p' = education alice_profile \<and>
          (truthy (b_company second_post) \<longrightarrow> company p' = b_company second_post) \<and>
          (truthy (b_website second_post) \<longrightarrow> website p' = b_website second_post) \<and>
          (truthy (b_location second_post) \<longrightarrow> location p' = b_location second_post) \<and>
          (truthy (b_bio second_post) \<longrightarrow> bio p' = b_bio second_post) \<and>
          (truthy (b_githubusername second_post) \<longrightarrow>
             githubusername p' = b_githubusername second_post)"
    by (elim exE conjE) (rule that)
  from 5 v b(6,7) g k have 6: "snd (upsertProfile alice second_post alice_store) =
      alice_store\<lparr>profiles := [p']\<rparr>"
    "status p' = Some ''Senior developer''" "skills p' = [''go'']"
    "linkedin (social p') = Some ''in/alice''"
    by (simp_all add: l)
  from 1 2 3 4 6 v b a l
  have "\<exists>p'. findOne alice (profiles (snd (upsertProfile alice second_post alice_store))) =
            Inr (Some (0, p')) \<and>
          length (profiles (snd (upsertProfile alice second_post alice_store))) = 1 \<and>
          fst (upsertProfile alice second_post alice_store) = (200, ProfileJson p') \<and>
          snd (upsertProfile alice second_post alice_store) = alice_store\<lparr>profiles := [p']\<rparr> \<and>
          status p' = Some ''Senior developer'' \<and> skills p' = [''go''] \<and>
          linkedin (social p') = Some ''in/alice'' \<and>
          company p' = Some ''Acme'' \<and> website p' = Some ''acme.example'' \<and>
          location p' = Some ''Oslo'' \<and> bio p' = Some ''Builds things'' \<and>
          githubusername p' = Some ''alice''"
    by (intro exI [of _ p']) simp
  with findOne_alice_store v b a show ?thesis by simp
qed

lemma build_social_keys:
  "(b_youtube b = None \<longrightarrow> youtube (build_social b) = None) \<and>
   (b_twitter b = None \<longrightarrow> twitter (build_social b) = None) \<and>
   (b_linkedin b = None \<longrightarrow> linkedin (build_social b) = None) \<and>
   (b_facebook b = None \<longrightarrow> facebook (build_social b) = None) \<and>
   (b_instagram b = None \<longrightarrow> instagram (build_social b) = None) \<and>
   (truthy (b_youtube b) \<longrightarrow> youtube (build_social b) = b_youtube b) \<and>
   (truthy (b_twitter b) \<longrightarrow> twitter (build_social b) = b_twitter b) \<and>
   (truthy (b_linkedin b) \<longrightarrow> linkedin (build_social b) = b_linkedin b) \<and>
   (truthy (b_facebook b) \<longrightarrow> facebook (build_social b) = b_facebook b) \<and>
   (truthy (b_instagram b) \<longrightarrow> instagram (build_social b) = b_instagram b)"
  by (simp add: build_social_def if_given_def truthy_def)

text \<open>
  C10. Every POST that passes validation leaves the caller's profile with a social
  object built from this request alone, whatever the profile held before: a social key
  the request gives is stored, a social key the request omits is absent afterwards.
  A top-level optional field that the request omits keeps the value the profile had.
\<close>

theorem upsertProfile_replaces_social:
  assumes "castObjectId uid = Inr oid" and "validate_profile b = []"
    and "upsertProfile uid b s = (r, s')"
  shows "\<exists>i p'. findOne uid (profiles s') = Inr (Some (i, p')) \<and>
                r = (200, ProfileJson p') \<and>
                social p' = build_social b \<and>
                (b_youtube b = None \<longrightarrow> youtube (social p') = None) \<and>
                (b_twitter b = None \<longrightarrow> twitter (social p') = None) \<and>
                (b_linkedin b = None \<longrightarrow> linkedin (social p') = None) \<and>
                (b_facebook b = None \<longrightarrow> facebook (social p') = None) \<and>
                (b_instagram b = None \<longrightarrow> instagram (social p') = None) \<and>
                (truthy (b_youtube b) \<longrightarrow> youtube (social p') = b_youtube b) \<and>
                (truthy (b_twitter b) \<longrightarrow> twitter (social p') = b_twitter b) \<and>
                (truthy (b_linkedin b) \<longrightarrow> linkedin (social p') = b_linkedin b) \<and>
                (truthy (b_facebook b) \<longrightarrow> facebook (social p') = b_facebook b) \<and>
                (truthy (b_instagram b) \<longrightarrow> instagram (social p') = b_instagram b) \<and>
                (\<forall>j q. findOne uid (profiles s) = Inr (Some (j, q)) \<longrightarrow>
                   (b_company b = None \<longrightarrow> company p' = company q) \<and>
                   (b_website b = None \<longrightarrow> website p' = website q) \<and>
                   (b_location b = None \<longrightarrow> location p' = location q) \<and>
                   (b_bio b = None \<longrightarrow> bio p' = bio q) \<and>
                   (b_githubusername b = None \<longrightarrow> githubusername p' = githubusername q))"
proof (cases "find_index_of (\<lambda>q. user q = oid) (profiles s)")
  case None
  then have f: "findOne uid (profiles s) = Inr None"
    by (simp add: findOne_cast [OF assms(1)])
  from upsertProfile_create [OF f assms(2)] assms(3) obtain p where
    p: "new_profile (build_profilefields uid b) = Inr p"
    and r: "r = (200, ProfileJson p)"
    and s': "s' = s\<lparr>profiles := profiles s @ [p]\<rparr>"
    by auto
  have u: "user p = oid" by (rule new_profile_user [OF assms(1) p])
  from find_index_of_append_new [OF None, of p] u
  have found: "findOne uid (profiles s') = Inr (Some (length (profiles s), p))"
    by (simp add: findOne_cast [OF assms(1)] s')
  have soc: "social p = build_social b" by (rule new_profile_social [OF p])
  show ?thesis
    apply (rule exI [of _ "length (profiles s)"])
    apply (rule exI [of _ p])
    apply (simp add: found r soc build_social_keys f)
    done
next
  case (Some i)
  then have f: "findOne uid (profiles s) = Inr (Some (i, profiles s ! i))"
    by (simp add: findOne_cast [OF assms(1)])
  from upsertProfile_update [OF f assms(2)] assms(3) obtain p' where
    p': "set_fields (build_profilefields uid b) (profiles s ! i) = Inr p'"
    and r: "r = (200, ProfileJson p')"
    and s': "s' = s\<lparr>profiles := (profiles s)[i := p']\<rparr>"
    by auto
  have u: "user p' = oid" by (rule set_fields_user [OF assms(1) p'])
  from find_index_of_Some [OF Some] have i: "i < length (profiles s)" by simp
  from find_index_of_update [OF Some, of p'] u i
  have found: "findOne uid (profiles s') = Inr (Some (i, p'))"
    by (simp add: findOne_cast [OF assms(1)] s')
  have soc: "social p' = build_social b" by (rule set_fields_social [OF p'])
  show ?thesis
    apply (rule exI [of _ i])
    apply (rule exI [of _ p'])
    apply (simp add: found r soc build_social_keys f set_fields_omitted [OF p'])
    done
qed

theorem upsertProfile_replaces_social_witness:
  "castObjectId alice = Inr alice \<and> validate_profile second_post = [] \<and>
   findOne alice (profiles alice_store) = Inr (Some (0, alice_profile)) \<and>
   youtube (social alice_profile) = Some ''yt/alice'' \<and>
   twitter (social alice_profile) = Some ''tw/alice'' \<and>
   company alice_profile = Some ''Acme'' \<and>
   b_youtube second_post = None \<and> b_twitter second_post = None \<and>
   b_company second_post = None \<and> b_linkedin second_post = Some ''in/alice'' \<and>
   (\<exists>i p'. findOne alice (profiles (snd (upsertProfile alice second_post alice_store))) =
              Inr (Some (i, p')) \<and>
            youtube (social p') = None \<and> twitter (social p') = None \<and>
            linkedin (social p') = Some ''in/alice'' \<and> company p' = Some ''Acme'')"
proof -
  have v: "validate_profile second_post = []"
    by (simp add: validate_profile_ok truthy_def second_post_def no_fields_def)
  have b: "b_youtube second_post = None" "b_twitter second_post = None"
    "b_company second_post = None" "b_linkedin second_post = Some ''in/alice''"
    "truthy (b_linkedin second_post)"
    by (simp_all add: second_post_def no_fields_def truthy_def)
  have a: "youtube (social alice_profile) = Some ''yt/alice''"
    "twitter (social alice_profile) = Some ''tw/alice''"
    "company alice_profile = Some ''Acme''"
    by (simp_all add: alice_profile_def)
  from upsertProfile_replaces_social [OF cast_alice v surjective_pairing, of alice_store]
  obtain i p' where
    1: "findOne alice (profiles (snd (upsertProfile alice second_post alice_store))) =
          Inr (Some (i, p'))"
    and 2: "b_youtube second_post = None \<longrightarrow> youtube (social p') = None"
    and 3: "b_twitter second_post = None \<longrightarrow> twitter (social p') = None"
    and 4: "truthy (b_linkedin second_post) \<longrightarrow>
              linkedin (social p') = b_linkedin second_post"
    and 5: "\<forall>j q. findOne alice (profiles alice_store) = Inr (Some (j, q)) \<longrightarrow>
               (b_company second_post = None \<longrightarrow> company p' = company q) \<and>
               (b_website second_post = None \<longrightarrow> website p' = website q) \<and>
               (b_location second_post = None \<longrightarrow> location p' = location q) \<and>
               (b_bio second_post = None \<longrightarrow> bio p' = bio q) \<and>
               (b_githubusername second_post = None \<longrightarrow>
                githubusername p' = githubusername q)"
    by (elim exE conjE) (rule that)
  from 5 findOne_alice_store b(3) a(3) have "company p' = Some ''Acme''" by simp
  with 1 2 3 4 b have "\<exists>i p'.
      findOne alice (profiles (snd (upsertProfile alice second_post alice_store))) =
        Inr (Some (i, p')) \<and>
      youtube (social p') = None \<and> twitter (social p') = None \<and>
      linkedin (social p') = Some ''in/alice'' \<and> company p' = Some ''Acme''"
    by simp
  with cast_alice v findOne_alice_store a b show ?thesis by simp
qed

subsection \<open>PUT and DELETE on the embedded sequences\<close>

lemma modify_profile_found:
  "findOne uid (profiles s) = Inr (Some (i, p)) \<Longrightarrow>
   modify_profile uid f s = Inr (f p, s\<lparr>profiles := (profiles s)[i := f p]\<rparr>)"
  by (simp add: modify_profile_def save_at_def)

lemma modify_profile_owners:
  assumes "modify_profile uid f s = Inr (p', s')" and "\<And>q. user (f q) = user q"
  shows "map user (profiles s') = map user (profiles s)"
proof -
  from assms(1) obtain i p where
    f: "findOne uid (profiles s) = Inr (Some (i, p))"
    and s': "s' = s\<lparr>profiles := (profiles s)[i := f p]\<rparr>"
    by (auto simp: modify_profile_def save_at_def split: sum.splits option.splits)
  from findOne_found [OF f] have "i < length (profiles s)" and "p = profiles s ! i"
    by auto
  with assms(2) [of p] show ?thesis
    by (simp add: s' map_user_update)
qed

lemma send_profile_owners:
  assumes "\<And>q. user (f q) = user q"
  shows "map user (profiles (snd (send_profile msg s (modify_profile uid f s)))) =
         map user (profiles s)"
proof (cases "modify_profile uid f s")
  case (Inl e)
  then show ?thesis by (simp add: send_profile_def)
next
  case (Inr r)
  obtain p' s' where r: "r = (p', s')" by (cases r)
  from modify_profile_owners [OF Inr [unfolded r] assms] show ?thesis
    by (simp add: send_profile_def Inr r)
qed

lemma addExperience_twice:
  assumes "findOne uid (profiles s) = Inr (Some (i, p))"
    and "validate_experience b1 = []" and "validate_experience b2 = []"
  shows "addExperience uid b2 id2 (snd (addExperience uid b1 id1 s)) =
           ((200, ProfileJson (p\<lparr>experiences := newExp id2 b2 # newExp id1 b1 # experiences p\<rparr>)),
            s\<lparr>profiles :=
                (profiles s)[i := p\<lparr>experiences := newExp id2 b2 # newExp id1 b1 # experiences p\<rparr>]\<rparr>)"
proof -
  let ?p1 = "p\<lparr>experiences := newExp id1 b1 # experiences p\<rparr>"
  let ?s1 = "s\<lparr>profiles := (profiles s)[i := ?p1]\<rparr>"
  from findOne_found [OF assms(1)] obtain oid where
    oid: "castObjectId uid = Inr oid"
    and idx: "find_index_of (\<lambda>q. user q = oid) (profiles s) = Some i"
    and i: "i < length (profiles s)" and u: "user p = oid"
    by blast
  have 1: "addExperience uid b1 id1 s = ((200, ProfileJson ?p1), ?s1)"
    by (simp add: addExperience_def assms(2) send_profile_def modify_profile_found [OF assms(1)])
  from find_index_of_update [OF idx, of ?p1] u i
  have f1: "findOne uid (profiles ?s1) = Inr (Some (i, ?p1))"
    by (simp add: findOne_cast [OF oid])
  show ?thesis
    by (simp add: 1 addExperience_def [of uid b2] assms(3) send_profile_def
        modify_profile_found [OF f1])
qed

lemma addEducation_twice:
  assumes "findOne uid (profiles s) = Inr (Some (i, p))"
    and "validate_education c1 = []" and "validate_education c2 = []"
  shows "addEducation uid c2 id2 (snd (addEducation uid c1 id1 s)) =
           ((200, ProfileJson (p\<lparr>education := newEdu id2 c2 # newEdu id1 c1 # education p\<rparr>)),
            s\<lparr>profiles :=
                (profiles s)[i := p\<lparr>education := newEdu id2 c2 # newEdu id1 c1 # education p\<rparr>]\<rparr>)"
proof -
  let ?p1 = "p\<lparr>education := newEdu id1 c1 # education p\<rparr>"
  let ?s1 = "s\<lparr>profiles := (profiles s)[i := ?p1]\<rparr>"
  from findOne_found [OF assms(1)] obtain oid where
    oid: "castObjectId uid = Inr oid"
    and idx: "find_index_of (\<lambda>q. user q = oid) (profiles s) = Some i"
    and i: "i < length (profiles s)" and u: "user p = oid"
    by blast
  have 1: "addEducation uid c1 id1 s = ((200, ProfileJson ?p1), ?s1)"
    by (simp add: addEducation_def assms(2) send_profile_def modify_profile_found [OF assms(1)])
  from find_index_of_update [OF idx, of ?p1] u i
  have f1: "findOne uid (profiles ?s1) = Inr (Some (i, ?p1))"
    by (simp add: findOne_cast [OF oid])
  show ?thesis
    by (simp add: 1 addEducation_def [of uid c2] assms(3) send_profile_def
        modify_profile_found [OF f1])
qed

text \<open>
  C6. For a caller with a profile, adding entry E1 and then entry E2 (both passing
  validation) is answered 200 and leaves the profile with E2 first, E1 second and the
  earlier entries after them, for experiences and for education alike; nothing else of
  the profile or the collection changes.
\<close>

theorem add_entries_prepend:
  assumes "findOne uid (profiles s) = Inr (Some (i, p))"
    and "validate_experience b1 = []" and "validate_experience b2 = []"
    and "validate_education c1 = []" and "validate_education c2 = []"
  shows "addExperience uid b2 id2 (snd (addExperience uid b1 id1 s)) =
           ((200, ProfileJson (p\<lparr>experiences := newExp id2 b2 # newExp id1 b1 # experiences p\<rparr>)),
            s\<lparr>profiles :=
                (profiles s)[i := p\<lparr>experiences := newExp id2 b2 # newExp id1 b1 # experiences p\<rparr>]\<rparr>) \<and>
         addEducation uid c2 jd2 (snd (addEducation uid c1 jd1 s)) =
           ((200, ProfileJson (p\<lparr>education := newEdu jd2 c2 # newEdu jd1 c1 # education p\<rparr>)),
            s\<lparr>profiles :=
                (profiles s)[i := p\<lparr>education := newEdu jd2 c2 # newEdu jd1 c1 # education p\<rparr>]\<rparr>)"
  using addExperience_twice [OF assms(1,2,3)] addEducation_twice [OF assms(1,4,5)]
  by simp

theorem add_entries_prepend_witness:
  "findOne alice (profiles alice_store) = Inr (Some (0, alice_profile)) \<and>
   validate_experience exp_one = [] \<and> validate_experience exp_two = [] \<and>
   validate_education edu_one = [] \<and> validate_education edu_two = [] \<and>
   fst (addExperience alice exp_two ''e2'' (snd (addExperience alice exp_one ''e1'' alice_store))) =
     (200, ProfileJson (alice_profile\<lparr>experiences :=
                          [newExp ''e2'' exp_two, newExp ''e1'' exp_one]\<rparr>)) \<and>
   fst (addEducation alice edu_two ''d2'' (snd (addEducation alice edu_one ''d1'' alice_store))) =
     (200, ProfileJson (alice_profile\<lparr>education :=
                          [newEdu ''d2'' edu_two, newEdu ''d1'' edu_one]\<rparr>))"
proof -
  have v: "validate_experience exp_one = []" "validate_experience exp_two = []"
    "validate_education edu_one = []" "validate_education edu_two = []"
    by (simp_all add: validate_experience_def validate_education_def check_not_empty_def
        truthy_def exp_one_def exp_two_def edu_one_def edu_two_def)
  have e: "experiences alice_profile = []" "education alice_profile = []"
    by (simp_all add: alice_profile_def)
  from add_entries_prepend [OF findOne_alice_store v, of "''e2''" "''e1''" "''d2''" "''d1''"]
  show ?thesis
    using findOne_alice_store v e by simp
qed

subsection \<open>DELETE /\<close>

lemma remove_first_subset: "set (remove_first P xs) \<subseteq> set xs"
  by (induction xs) auto

lemma remove_first_distinct:
  "distinct (map f xs) \<Longrightarrow> distinct (map f (remove_first P xs))"
  by (induction xs) (auto dest: subsetD [OF remove_first_subset])

lemma remove_first_only:
  "distinct (map f xs) \<Longrightarrow> x \<in> set (remove_first (\<lambda>q. f q = k) xs) \<Longrightarrow> f x \<noteq> k"
proof (induction xs)
  case Nil
  then show ?case by simp
next
  case (Cons y ys)
  show ?case
  proof (cases "f y = k")
    case True
    with Cons.prems show ?thesis by (auto simp: image_iff)
  next
    case False
    with Cons show ?thesis by auto
  qed
qed

lemma run_delete_ops:
  assumes "castObjectId uid = Inr oid"
  shows "run_ops (deleteOwnProfile_ops uid) s =
           (None, s\<lparr>posts := filter (\<lambda>q. post_user q \<noteq> oid) (posts s),
                     profiles := remove_first (\<lambda>p. user p = oid) (profiles s),
                     users := (users s)(oid := None)\<rparr>)"
  by (simp add: deleteOwnProfile_ops_def assms)

lemma deleteOwnProfile_malformed:
  "castObjectId uid = Inl e \<Longrightarrow> deleteOwnProfile uid s = ((500, PlainBody ''Server Error!''), s)"
  by (simp add: deleteOwnProfile_def deleteOwnProfile_ops_def)

text \<open>
  C2. For a caller whose id is well formed, in a store with at most one profile for
  each user, DELETE / runs three operations in this order: the caller's posts, then the
  caller's profile, then the caller's user document. After the first no post of the
  caller is left while profiles and users are as before; after the second no profile
  of the caller is found while the user is still there; after the third the user is
  gone. The answer is 200, and a later read of the caller's posts, profile or user
  finds nothing (GET /me answers that there is no profile).
\<close>

theorem deleteOwnProfile_cascade:
  assumes "castObjectId uid = Inr oid" and "one_profile_per_user s"
  shows "\<exists>s1 s2 s3.
           deleteOwnProfile_ops uid =
             [PostDeleteMany uid, ProfileFindOneAndRemove uid, UserFindOneAndRemove uid] \<and>
           exec_op (PostDeleteMany uid) s = Inr s1 \<and>
           exec_op (ProfileFindOneAndRemove uid) s1 = Inr s2 \<and>
           exec_op (UserFindOneAndRemove uid) s2 = Inr s3 \<and>
           deleteOwnProfile uid s = ((200, MsgJson ''User removed!''), s3) \<and>
           filter (\<lambda>q. post_user q = oid) (posts s1) = [] \<and>
           profiles s1 = profiles s \<and> users s1 = users s \<and>
           findOne uid (profiles s2) = Inr None \<and>
           posts s2 = posts s1 \<and> users s2 = users s \<and>
           users s3 oid = None \<and> profiles s3 = profiles s2 \<and> posts s3 = posts s2 \<and>
           getOwnProfile uid s3 = (400, MsgJson ''There is no profile for this user!'')"
proof -
  let ?s1 = "s\<lparr>posts := filter (\<lambda>q. post_user q \<noteq> oid) (posts s)\<rparr>"
  let ?s2 = "?s1\<lparr>profiles := remove_first (\<lambda>p. user p = oid) (profiles s)\<rparr>"
  let ?s3 = "?s2\<lparr>users := (users s)(oid := None)\<rparr>"
  have e1: "exec_op (PostDeleteMany uid) s = Inr ?s1"
    by (simp add: assms(1))
  have e2: "exec_op (ProfileFindOneAndRemove uid) ?s1 = Inr ?s2"
    by (simp add: assms(1))
  have e3: "exec_op (UserFindOneAndRemove uid) ?s2 = Inr ?s3"
    by (simp add: assms(1))
  have d: "deleteOwnProfile uid s = ((200, MsgJson ''User removed!''), ?s3)"
    by (simp add: deleteOwnProfile_def deleteOwnProfile_ops_def assms(1))
  have p1: "filter (\<lambda>q. post_user q = oid) (posts ?s1) = []"
    by (simp add: filter_empty_conv)
  from assms(2) have "distinct (map user (profiles s))"
    by (simp add: one_profile_per_user_def)
  then have "\<forall>x\<in>set (remove_first (\<lambda>q. user q = oid) (profiles s)). user x \<noteq> oid"
    by (blast dest: remove_first_only)
  then have n: "find_index_of (\<lambda>q. user q = oid)
                  (remove_first (\<lambda>q. user q = oid) (profiles s)) = None"
    by (simp add: find_index_of_None)
  then have f2: "findOne uid (profiles ?s2) = Inr None"
    by (simp add: findOne_cast [OF assms(1)])
  then have g: "getOwnProfile uid ?s3 = (400, MsgJson ''There is no profile for this user!'')"
    by (simp add: getOwnProfile_def)
  show ?thesis
    apply (rule exI [of _ ?s1])
    apply (rule exI [of _ ?s2])
    apply (rule exI [of _ ?s3])
    apply (simp only: e1 e2 e3 d p1 f2 g deleteOwnProfile_ops_def)
    apply simp
    done
qed

lemma cast_bob: "castObjectId bob = Inr bob"
  by (simp add: castObjectId_def bob_def is_hex_def lower_hex_def)

theorem deleteOwnProfile_cascade_witness:
  "castObjectId alice = Inr alice \<and> one_profile_per_user alice_store \<and>
   filter (\<lambda>q. post_user q = alice) (posts alice_store) \<noteq> [] \<and>
   users alice_store alice \<noteq> None \<and>
   fst (deleteOwnProfile alice alice_store) = (200, MsgJson ''User removed!'') \<and>
   filter (\<lambda>q. post_user q = alice) (posts (snd (deleteOwnProfile alice alice_store))) = [] \<and>
   findOne alice (profiles (snd (deleteOwnProfile alice alice_store))) = Inr None \<and>
   users (snd (deleteOwnProfile alice alice_store)) alice = None"
proof -
  have inv: "one_profile_per_user alice_store"
    by (simp add: one_profile_per_user_def alice_store_def)
  have before: "filter (\<lambda>q. post_user q = alice) (posts alice_store) \<noteq> []"
    "users alice_store alice \<noteq> None"
    by (simp_all add: alice_store_def)
  from deleteOwnProfile_cascade [OF cast_alice inv]
  have "\<exists>s3. deleteOwnProfile alice alice_store = ((200, MsgJson ''User removed!''), s3) \<and>
          filter (\<lambda>q. post_user q = alice) (posts s3) = [] \<and>
          findOne alice (profiles s3) = Inr None \<and> users s3 alice = None"
    by (elim exE conjE) simp
  with cast_alice inv before show ?thesis by auto
qed

subsection \<open>One profile for each user\<close>

lemma upsertProfile_found_owners:
  assumes "findOne uid (profiles s) = Inr (Some (i, p))"
  shows "map user (profiles (snd (upsertProfile uid b s))) = map user (profiles s)"
proof (cases "validate_profile b = []")
  case False
  then show ?thesis by (simp add: upsertProfile_invalid)
next
  case True
  from findOne_found [OF assms] obtain oid where
    oid: "castObjectId uid = Inr oid"
    and i: "i < length (profiles s)" and p: "p = profiles s ! i" "user p = oid"
    by blast
  from upsertProfile_update [OF assms True] obtain p' where
    p': "set_fields (build_profilefields uid b) p = Inr p'"
    and up: "upsertProfile uid b s =
               ((200, ProfileJson p'), s\<lparr>profiles := (profiles s)[i := p']\<rparr>)"
    by blast
  from set_fields_user [OF oid p'] p have "user p' = user (profiles s ! i)" by simp
  from map_user_update [OF i this] show ?thesis by (simp add: up)
qed

lemma upsertProfile_invariant:
  assumes "one_profile_per_user s"
  shows "one_profile_per_user (snd (upsertProfile uid b s))"
proof (cases "validate_profile b = []")
  case False
  with assms show ?thesis by (simp add: upsertProfile_invalid)
next
  case True
  show ?thesis
  proof (cases "findOne uid (profiles s)")
    case (Inl e)
    with assms True show ?thesis
      by (simp add: upsertProfile_def upsertProfile_try_def)
  next
    case (Inr found)
    show ?thesis
    proof (cases found)
      case None
      with Inr have f: "findOne uid (profiles s) = Inr None" by simp
      from findOne_absent [OF f] obtain oid where
        oid: "castObjectId uid = Inr oid"
        and no: "find_index_of (\<lambda>p. user p = oid) (profiles s) = None"
        by blast
      from upsertProfile_create [OF f True] obtain p where
        p: "new_profile (build_profilefields uid b) = Inr p"
        and up: "upsertProfile uid b s =
                   ((200, ProfileJson p), s\<lparr>profiles := profiles s @ [p]\<rparr>)"
        by blast
      from new_profile_user [OF oid p] no have "user p \<notin> set (map user (profiles s))"
        by (auto simp: find_index_of_None)
      with assms show ?thesis
        by (simp add: up one_profile_per_user_def)
    next
      case (Some ip)
      obtain i p where ip: "ip = (i, p)" by (cases ip)
      with Inr Some have f: "findOne uid (profiles s) = Inr (Some (i, p))" by simp
      from upsertProfile_found_owners [OF f] assms show ?thesis
        by (simp add: one_profile_per_user_def)
    qed
  qed
qed


lemma deleteOwnProfile_invariant:
  assumes "one_profile_per_user s"
  shows "one_profile_per_user (snd (deleteOwnProfile uid s))"
proof (cases "castObjectId uid")
  case (Inl e)
  with assms show ?thesis by (simp add: deleteOwnProfile_malformed)
next
  case (Inr oid)
  from assms have "distinct (map user (remove_first (\<lambda>p. user p = oid) (profiles s)))"
    unfolding one_profile_per_user_def by (rule remove_first_distinct)
  then show ?thesis
    by (simp add: deleteOwnProfile_def run_delete_ops [OF Inr] one_profile_per_user_def)
qed

lemma handle_invariant:
  assumes "one_profile_per_user s"
  shows "one_profile_per_user (snd (handle r s))"
proof (cases r)
  case (UpsertProfile uid b)
  with assms show ?thesis by (simp add: upsertProfile_invariant)
next
  case (AddExperience uid b new_id)
  have "map user (profiles (snd (addExperience uid b new_id s))) = map user (profiles s)"
    by (simp add: addExperience_def Let_def send_profile_owners)
  with assms AddExperience show ?thesis by (simp add: one_profile_per_user_def)
next
  case (AddEducation uid b new_id)
  have "map user (profiles (snd (addEducation uid b new_id s))) = map user (profiles s)"
    by (simp add: addEducation_def Let_def send_profile_owners)
  with assms AddEducation show ?thesis by (simp add: one_profile_per_user_def)
next
  case (RemoveExperience uid entry_id)
  have "map user (profiles (snd (removeExperience uid entry_id s))) = map user (profiles s)"
    by (simp add: removeExperience_def send_profile_owners)
  with assms RemoveExperience show ?thesis by (simp add: one_profile_per_user_def)
next
  case (RemoveEducation uid entry_id)
  have "map user (profiles (snd (removeEducation uid entry_id s))) = map user (profiles s)"
    by (simp add: removeEducation_def send_profile_owners)
  with assms RemoveEducation show ?thesis by (simp add: one_profile_per_user_def)
next
  case (DeleteOwnProfile uid)
  with assms show ?thesis by (simp add: deleteOwnProfile_invariant)
qed

text \<open>
  C9. A store with at most one profile for each user still has at most one profile for
  each user after any sequence of POST /, PUT and DELETE on /experience and /education
  and DELETE / requests, served one after the other.
\<close>

theorem serve_one_profile_per_user:
  "one_profile_per_user s \<Longrightarrow> one_profile_per_user (serve rs s)"
proof (induction rs arbitrary: s)
  case Nil
  then show ?case by simp
next
  case (Cons r rs)
  from Cons.prems have "one_profile_per_user (snd (handle r s))"
    by (rule handle_invariant)
  then show ?case by (simp add: Cons.IH)
qed

theorem serve_one_profile_per_user_witness:
  "one_profile_per_user empty_store \<and>
   length (profiles (serve busy_day empty_store)) = 2 \<and>
   one_profile_per_user (serve busy_day empty_store)"
proof -
  have inv: "one_profile_per_user empty_store"
    by (simp add: one_profile_per_user_def empty_store_def)
  have len: "length (profiles (serve busy_day empty_store)) = 2"
    by code_simp
  from serve_one_profile_per_user [OF inv, of busy_day] inv len show ?thesis by simp
qed

subsection \<open>Removing an entry\<close>

lemma indexOf_absent: "v \<notin> set xs \<Longrightarrow> indexOf xs v = -1"
  by (induction xs) (auto simp: Let_def)

lemma indexOf_present:
  "v \<in> set xs \<Longrightarrow> 0 \<le> indexOf xs v \<and> nat (indexOf xs v) < length xs \<and>
     xs ! nat (indexOf xs v) = v"
proof (induction xs)
  case Nil
  then show ?case by simp
next
  case (Cons x xs)
  show ?case
  proof (cases "x = v")
    case True
    then show ?thesis by simp
  next
    case False
    with Cons.prems have "v \<in> set xs" by simp
    from Cons.IH [OF this] False show ?thesis
      by (simp add: Let_def nat_add_distrib)
  qed
qed

lemma splice_last: "splice (-1) 1 xs = butlast xs"
proof (cases "xs = []")
  case True
  then show ?thesis by (simp add: splice_def)
next
  case False
  then have "nat (int (length xs) - 1) = length xs - 1" by simp
  with False show ?thesis
    by (simp add: splice_def Let_def butlast_conv_take max_def min_def)
qed

lemma remove_experience_entry_absent:
  "entry_id \<notin> set (map exp_id es) \<Longrightarrow> remove_experience_entry entry_id es = butlast es"
  by (simp add: remove_experience_entry_def indexOf_absent splice_last del: set_map)

lemma remove_education_entry_absent:
  "entry_id \<notin> set (map edu_id es) \<Longrightarrow> remove_education_entry entry_id es = butlast es"
  by (simp add: remove_education_entry_def indexOf_absent splice_last del: set_map)

lemma cast_alice_worked: "findOne alice (profiles worked_store) = Inr (Some (0, worked_profile))"
  by (simp add: findOne_def cast_alice worked_store_def worked_profile_def alice_profile_def
      alice_store_def)

text \<open>
  C3. The handlers look the id up with indexOf and pass the result to splice without
  testing it: for an id that no entry has, indexOf gives -1 and splice(-1, 1) removes
  the last entry. On a profile with the experiences e2, e1 and the education d2, d1,
  removing the unknown ids e9 and d9 is answered 200 and leaves e2 alone and d2 alone:
  the sequence does change.
\<close>

theorem removeExperience_missing_id_removes_last:
  "indexOf (map exp_id (experiences worked_profile)) ''e9'' = -1 \<and>
   experiences worked_profile = [newExp ''e2'' exp_two, newExp ''e1'' exp_one] \<and>
   removeExperience alice ''e9'' worked_store =
     ((200, ProfileJson (worked_profile\<lparr>experiences := [newExp ''e2'' exp_two]\<rparr>)),
      worked_store\<lparr>profiles := [worked_profile\<lparr>experiences := [newExp ''e2'' exp_two]\<rparr>]\<rparr>) \<and>
   indexOf (map edu_id (education worked_profile)) ''d9'' = -1 \<and>
   education worked_profile = [newEdu ''d2'' edu_two, newEdu ''d1'' edu_one] \<and>
   removeEducation alice ''d9'' worked_store =
     ((200, ProfileJson (worked_profile\<lparr>education := [newEdu ''d2'' edu_two]\<rparr>)),
      worked_store\<lparr>profiles := [worked_profile\<lparr>education := [newEdu ''d2'' edu_two]\<rparr>]\<rparr>)"
proof -
  have e: "experiences worked_profile = [newExp ''e2'' exp_two, newExp ''e1'' exp_one]"
    and d: "education worked_profile = [newEdu ''d2'' edu_two, newEdu ''d1'' edu_one]"
    by (simp_all add: worked_profile_def)
  have ie: "indexOf (map exp_id (experiences worked_profile)) ''e9'' = -1"
    by (simp add: e newExp_def)
  have id: "indexOf (map edu_id (education worked_profile)) ''d9'' = -1"
    by (simp add: d newEdu_def)
  have re: "remove_experience_entry ''e9'' (experiences worked_profile) = [newExp ''e2'' exp_two]"
    using ie by (simp add: remove_experience_entry_def splice_last) (simp add: e)
  have rd: "remove_education_entry ''d9'' (education worked_profile) = [newEdu ''d2'' edu_two]"
    using id by (simp add: remove_education_entry_def splice_last) (simp add: d)
  have ps: "profiles worked_store = [worked_profile]"
    by (simp add: worked_store_def)
  have 1: "removeExperience alice ''e9'' worked_store =
     ((200, ProfileJson (worked_profile\<lparr>experiences := [newExp ''e2'' exp_two]\<rparr>)),
      worked_store\<lparr>profiles := [worked_profile\<lparr>experiences := [newExp ''e2'' exp_two]\<rparr>]\<rparr>)"
    by (simp add: removeExperience_def send_profile_def modify_profile_found [OF cast_alice_worked]
        re ps)
  have 2: "removeEducation alice ''d9'' worked_store =
     ((200, ProfileJson (worked_profile\<lparr>education := [newEdu ''d2'' edu_two]\<rparr>)),
      worked_store\<lparr>profiles := [worked_profile\<lparr>education := [newEdu ''d2'' edu_two]\<rparr>]\<rparr>)"
    by (simp add: removeEducation_def send_profile_def modify_profile_found [OF cast_alice_worked]
        rd ps)
  from e d ie id 1 2 show ?thesis by simp
qed

subsection \<open>GET /user/:user_id\<close>

lemma getProfileByUser_malformed:
  "castObjectId uid = Inl CastError \<Longrightarrow>
   getProfileByUser uid s = (400, MsgJson ''Profile not found!'')"
  by (simp add: getProfileByUser_def getProfileByUser_try_def findOne_def profile_catch_def)

lemma castObjectId_error: "castObjectId uid = Inl e \<Longrightarrow> e = CastError"
  by (auto simp: castObjectId_def split: if_splits)

lemma getProfileByUser_absent:
  "findOne uid (profiles s) = Inr None \<Longrightarrow>
   getProfileByUser uid s = (500, PlainBody ''Server Error!'')"
  by (simp add: getProfileByUser_def getProfileByUser_try_def profile_catch_def)

lemma getProfileByUser_found:
  "findOne uid (profiles s) = Inr (Some (i, p)) \<Longrightarrow>
   getProfileByUser uid s = (200, PopulatedJson (populate s p))"
  by (simp add: getProfileByUser_def getProfileByUser_try_def)

lemma getProfileByUser_find_unlinked:
  assumes "castObjectId uid = Inl e \<or> findOne uid (profiles s) = Inr None"
  shows "getProfileByUser_find uid s = (400, MsgJson ''Profile not found!'')"
proof -
  from assms consider (bad) "castObjectId uid = Inl CastError"
    | (absent) oid where "castObjectId uid = Inr oid"
        "find_index_of (\<lambda>p. user p = oid) (profiles s) = None"
    by (auto dest: castObjectId_error findOne_absent)
  then show ?thesis
  proof cases
    case bad
    then show ?thesis
      by (simp add: getProfileByUser_find_def getProfileByUser_find_try_def findAll_def
          profile_catch_def)
  next
    case absent
    from absent(2) have "filter (\<lambda>p. user p = oid) (profiles s) = []"
      by (simp add: find_index_of_None filter_empty_conv)
    with absent(1) show ?thesis
      by (simp add: getProfileByUser_find_def getProfileByUser_find_try_def findAll_def)
  qed
qed

lemma findOne_bob: "findOne bob (profiles alice_store) = Inr None"
proof -
  have "alice \<noteq> bob" by (simp add: alice_def bob_def)
  then show ?thesis
    by (simp add: findOne_cast [OF cast_bob] alice_store_def alice_profile_def)
qed

text \<open>
  C7. The handler of the complete router reads with findOne and tests the length of
  the result: for a well-formed id without profile the read gives null, the test
  raises, and the answer is 500 "Server Error!", not 400. The malformed id is answered
  400 "Profile not found!", and so is the absent id by the earlier handler, which
  reads with find.
\<close>

theorem getProfileByUser_absent_answers_500:
  "castObjectId bob = Inr bob \<and>
   findOne bob (profiles alice_store) = Inr None \<and>
   getProfileByUser bob alice_store = (500, PlainBody ''Server Error!'') \<and>
   getProfileByUser_find bob alice_store = (400, MsgJson ''Profile not found!'') \<and>
   castObjectId ''not-an-id'' = Inl CastError \<and>
   getProfileByUser ''not-an-id'' alice_store = (400, MsgJson ''Profile not found!'')"
proof -
  have c: "castObjectId ''not-an-id'' = Inl CastError"
    by (simp add: castObjectId_def)
  from cast_bob findOne_bob getProfileByUser_absent [OF findOne_bob]
    getProfileByUser_find_unlinked [of bob _ alice_store, OF disjI2, OF findOne_bob]
    c getProfileByUser_malformed [OF c]
  show ?thesis by simp
qed

subsection \<open>GET /github/:username\<close>

lemma encodeURI_append: "encodeURI (a @ b) = encodeURI a @ encodeURI b"
  by (simp add: encodeURI_def)

lemma encodeURI_plain: "list_all uri_unescaped s \<Longrightarrow> encodeURI s = s"
  by (induction s) (simp_all add: encodeURI_def)

lemma github_uri_shape:
  "github_uri username =
     ''https://api.github.com/users/'' @ encodeURI username @
     ''/repos?per_page=5&sort=created:asc''"
proof -
  have "encodeURI ''https://api.github.com/users/'' = ''https://api.github.com/users/''"
    by (rule encodeURI_plain) (simp add: uri_unescaped_def)
  moreover have "encodeURI ''/repos?per_page=5&sort=created:asc'' =
      ''/repos?per_page=5&sort=created:asc''"
    by (rule encodeURI_plain) (simp add: uri_unescaped_def)
  ultimately show ?thesis
    by (simp only: github_uri_def encodeURI_append)
qed

lemma github_uri_octocat:
  "github_uri ''octocat'' =
     ''https://api.github.com/users/octocat/repos?per_page=5&sort=created:asc''"
proof -
  have "encodeURI ''octocat'' = ''octocat''"
    by (rule encodeURI_plain) (simp add: uri_unescaped_def)
  then show ?thesis by (simp add: github_uri_shape)
qed

lemma uri_query_octocat:
  "uri_query (github_uri ''octocat'') = [(''per_page'', ''5''), (''sort'', ''created:asc'')]"
  by (simp add: github_uri_octocat uri_query_def)

text \<open>
  The request the handler sends for the user octocat carries the parameters
  \<^verbatim>\<open>per_page=5\<close> and \<^verbatim>\<open>sort=created:asc\<close>: its sort value is not
  \<^verbatim>\<open>created\<close> and names the ascending direction, so it is not a request for the
  5 most recently created repositories.
\<close>

theorem fetchGithubRepos_not_most_recent:
  "uri_query (github_uri ''octocat'') = [(''per_page'', ''5''), (''sort'', ''created:asc'')] \<and>
   \<not> spec_five_most_recently_created (uri_query (github_uri ''octocat''))"
  by (simp add: uri_query_octocat spec_five_most_recently_created_def)

lemma upper_hex_digit_range: "upper_hex_digit k \<in> set ''0123456789ABCDEF''"
proof -
  have "k mod 16 < length ''0123456789ABCDEF''" by simp
  then show ?thesis
    unfolding upper_hex_digit_def by (rule nth_mem)
qed

lemma percent_byte_chars: "x \<in> set (percent_byte n) \<Longrightarrow> x \<in> set ''%0123456789ABCDEF''"
  using upper_hex_digit_range [of "n div 16"] upper_hex_digit_range [of "n mod 16"]
  by (auto simp: percent_byte_def)

lemma encodeURI_chars:
  "x \<in> set (encodeURI u) \<Longrightarrow> x \<in> set u \<or> x \<in> set ''%0123456789ABCDEF''"
  by (auto simp: encodeURI_def dest: percent_byte_chars split: if_splits)

lemma encodeURI_delimiters:
  assumes "x \<notin> set u" and "x \<in> set ''/?#''"
  shows "x \<notin> set (encodeURI u)"
proof
  assume "x \<in> set (encodeURI u)"
  from encodeURI_chars [OF this] assms(1) have "x \<in> set ''%0123456789ABCDEF''" by simp
  with assms(2) show False by auto
qed

lemma split_on_nonempty: "split_on c s \<noteq> []"
  by (induction s) (auto split: list.splits)

lemma split_on_append:
  "c \<notin> set xs \<Longrightarrow>
   split_on c (xs @ ys) = (xs @ hd (split_on c ys)) # tl (split_on c ys)"
proof (induction xs)
  case Nil
  then show ?case by (simp add: split_on_nonempty)
next
  case (Cons x xs)
  then show ?case by auto
qed

lemma github_uri_location:
  assumes "CHR ''?'' \<notin> set username" and "CHR ''#'' \<notin> set username"
  shows "uri_location (github_uri username) =
           ''https://api.github.com/users/'' @ encodeURI username @ ''/repos''"
proof -
  let ?P = "\<lambda>c. c \<noteq> CHR ''?'' \<and> c \<noteq> CHR ''#''"
  from assms have e: "\<And>x. x \<in> set (encodeURI username) \<Longrightarrow> ?P x"
    using encodeURI_delimiters [of "CHR ''?''" username]
      encodeURI_delimiters [of "CHR ''#''" username] by auto
  have a: "\<And>x. x \<in> set ''https://api.github.com/users/'' \<Longrightarrow> ?P x" by auto
  have "takeWhile ?P (''https://api.github.com/users/'' @ encodeURI username @
          ''/repos?per_page=5&sort=created:asc'') =
        ''https://api.github.com/users/'' @ encodeURI username @
          takeWhile ?P ''/repos?per_page=5&sort=created:asc''"
    by (simp only: takeWhile_append2 [OF a] takeWhile_append2 [OF e])
  also have "takeWhile ?P ''/repos?per_page=5&sort=created:asc'' = ''/repos''" by simp
  finally show ?thesis by (simp only: uri_location_def github_uri_shape)
qed

lemma github_uri_query:
  assumes "CHR ''?'' \<notin> set username"
  shows "uri_query (github_uri username) = [(''per_page'', ''5''), (''sort'', ''created:asc'')]"
proof -
  let ?P = "\<lambda>c. c \<noteq> CHR ''?''"
  from assms have e: "\<And>x. x \<in> set (encodeURI username) \<Longrightarrow> ?P x"
    using encodeURI_delimiters [of "CHR ''?''" username] by auto
  have a: "\<And>x. x \<in> set ''https://api.github.com/users/'' \<Longrightarrow> ?P x" by auto
  have "dropWhile ?P (''https://api.github.com/users/'' @ encodeURI username @
          ''/repos?per_page=5&sort=created:asc'') =
        dropWhile ?P ''/repos?per_page=5&sort=created:asc''"
    by (simp only: dropWhile_append2 [OF a] dropWhile_append2 [OF e])
  also have "\<dots> = ''?per_page=5&sort=created:asc''" by simp
  finally have "dropWhile ?P (github_uri username) = ''?per_page=5&sort=created:asc''"
    by (simp only: github_uri_shape)
  then show ?thesis by (simp add: uri_query_def)
qed

lemma github_uri_segments:
  assumes "CHR ''/'' \<notin> set username" and "CHR ''?'' \<notin> set username"
    and "CHR ''#'' \<notin> set username"
  shows "split_on CHR ''/'' (uri_location (github_uri username)) =
           [''https:'', [], ''api.github.com'', ''users'', encodeURI username, ''repos'']"
proof -
  from assms(1) have e: "CHR ''/'' \<notin> set (encodeURI username)"
    by (rule encodeURI_delimiters) simp
  have "split_on CHR ''/'' (encodeURI username @ ''/repos'') = [encodeURI username, ''repos'']"
    by (simp add: split_on_append [OF e])
  then show ?thesis
    by (simp add: github_uri_location [OF assms(2,3)])
qed


text \<open>
  A user name that holds a question mark moves the query: what follows the name's
  question mark is read as the query of the request.
\<close>

lemma github_uri_question_mark:
  "github_uri ''a?b'' = ''https://api.github.com/users/a?b/repos?per_page=5&sort=created:asc'' \<and>
   uri_query (github_uri ''a?b'') = [(''b/repos?per_page'', ''5''), (''sort'', ''created:asc'')]"
proof -
  have "encodeURI ''a?b'' = ''a?b''"
    by (rule encodeURI_plain) (simp add: uri_unescaped_def)
  then have "github_uri ''a?b'' =
      ''https://api.github.com/users/a?b/repos?per_page=5&sort=created:asc''"
    by (simp add: github_uri_shape)
  then show ?thesis by (simp add: uri_query_def)
qed

text \<open>
  C8. For every user name the handler sends one request: a GET of the URI made of
  \<^verbatim>\<open>https://api.github.com/users/\<close>, the user name escaped by encodeURI and
  \<^verbatim>\<open>/repos?per_page=5&sort=created:asc\<close>, with the configured token in the
  Authorization header. For every user name without slash, question mark and hash
  (the delimiters that encodeURI leaves as they are) the path of that URI has the
  segments users, the escaped user name and repos, and its query is exactly
  \<^verbatim>\<open>per_page=5\<close> and \<^verbatim>\<open>sort=created:asc\<close>: one page of 5 entries of that
  user's repository listing, with the sort parameter as written. Whatever the failure
  (no token configured, or the request failing for any reason) the answer is the same
  404 with the message "No Github profile found!!!!"; a successful request is answered
  with its data.
\<close>

theorem fetchGithubRepos_request_and_failures:
  "github_uri username =
     ''https://api.github.com/users/'' @ encodeURI username @
     ''/repos?per_page=5&sort=created:asc'' \<and>
   (CHR ''/'' \<notin> set username \<and> CHR ''?'' \<notin> set username \<and> CHR ''#'' \<notin> set username \<longrightarrow>
      split_on CHR ''/'' (uri_location (github_uri username)) =
        [''https:'', [], ''api.github.com'', ''users'', encodeURI username, ''repos''] \<and>
      uri_query (github_uri username) = [(''per_page'', ''5''), (''sort'', ''created:asc'')]) \<and>
   github_headers token = [(''user-agent'', ''node.js''), (''Authorization'', ''token '' @ token)] \<and>
   (githubToken cfg = None \<longrightarrow>
      fetchGithubRepos axios_get cfg username = (404, MsgJson ''No Github profile found!!!!'')) \<and>
   (githubToken cfg = Some token \<and>
    axios_get (github_uri username) (github_headers token) = Inl failure \<longrightarrow>
      fetchGithubRepos axios_get cfg username = (404, MsgJson ''No Github profile found!!!!'')) \<and>
   (githubToken cfg = Some token \<and>
    axios_get (github_uri username) (github_headers token) = Inr data \<longrightarrow>
      fetchGithubRepos axios_get cfg username = (200, DataJson data))"
proof -
  have shape: "github_uri username =
     ''https://api.github.com/users/'' @ encodeURI username @
     ''/repos?per_page=5&sort=created:asc''"
    by (rule github_uri_shape)
  have clean: "CHR ''/'' \<notin> set username \<and> CHR ''?'' \<notin> set username \<and>
      CHR ''#'' \<notin> set username \<longrightarrow>
      split_on CHR ''/'' (uri_location (github_uri username)) =
        [''https:'', [], ''api.github.com'', ''users'', encodeURI username, ''repos''] \<and>
      uri_query (github_uri username) = [(''per_page'', ''5''), (''sort'', ''created:asc'')]"
    using github_uri_segments [of username] github_uri_query [of username] by blast
  have answers: "github_headers token =
      [(''user-agent'', ''node.js''), (''Authorization'', ''token '' @ token)] \<and>
   (githubToken cfg = None \<longrightarrow>
      fetchGithubRepos axios_get cfg username = (404, MsgJson ''No Github profile found!!!!'')) \<and>
   (githubToken cfg = Some token \<and>
    axios_get (github_uri username) (github_headers token) = Inl failure \<longrightarrow>
      fetchGithubRepos axios_get cfg username = (404, MsgJson ''No Github profile found!!!!'')) \<and>
   (githubToken cfg = Some token \<and>
    axios_get (github_uri username) (github_headers token) = Inr data \<longrightarrow>
      fetchGithubRepos axios_get cfg username = (200, DataJson data))"
    by (simp add: github_headers_def fetchGithubRepos_def fetchGithubRepos_try_def)
  from shape clean answers show ?thesis by (intro conjI) (rule shape, rule clean, simp_all)
qed

theorem fetchGithubRepos_request_and_failures_witness:
  "githubToken demo_config = Some ''s3cr3t'' \<and>
   CHR ''/'' \<notin> set ''octocat'' \<and> CHR ''?'' \<notin> set ''octocat'' \<and> CHR ''#'' \<notin> set ''octocat'' \<and>
   github_uri ''octocat'' =
     ''https://api.github.com/users/octocat/repos?per_page=5&sort=created:asc'' \<and>
   split_on CHR ''/'' (uri_location (github_uri ''octocat'')) =
     [''https:'', [], ''api.github.com'', ''users'', ''octocat'', ''repos''] \<and>
   uri_query (github_uri ''octocat'') = [(''per_page'', ''5''), (''sort'', ''created:asc'')] \<and>
   fetchGithubRepos (\<lambda>uri hs. Inl NetworkFailure) demo_config ''octocat'' =
     (404, MsgJson ''No Github profile found!!!!'') \<and>
   fetchGithubRepos (\<lambda>uri hs. Inl (HttpStatus 401)) demo_config ''octocat'' =
     (404, MsgJson ''No Github profile found!!!!'') \<and>
   fetchGithubRepos (\<lambda>uri hs. Inl (HttpStatus 404)) demo_config ''octocat'' =
     (404, MsgJson ''No Github profile found!!!!'') \<and>
   fetchGithubRepos (\<lambda>uri hs. Inr ''[]'') \<lparr>githubToken = None\<rparr> ''octocat'' =
     (404, MsgJson ''No Github profile found!!!!'') \<and>
   fetchGithubRepos octocat_only demo_config ''octocat'' = (200, DataJson ''[]'')"
proof -
  have t: "githubToken demo_config = Some ''s3cr3t''"
    by (simp add: demo_config_def)
  have e: "encodeURI ''octocat'' = ''octocat''"
    by (rule encodeURI_plain) (simp add: uri_unescaped_def)
  have c: "CHR ''/'' \<notin> set ''octocat''" "CHR ''?'' \<notin> set ''octocat''"
    "CHR ''#'' \<notin> set ''octocat''"
    by simp_all
  have o: "octocat_only (github_uri ''octocat'') (github_headers ''s3cr3t'') = Inr ''[]''"
    by (simp add: octocat_only_def github_uri_octocat github_headers_def)
  note th = fetchGithubRepos_request_and_failures [of "''octocat''"]
  note w = th [of "''s3cr3t''" demo_config "\<lambda>uri hs. Inl NetworkFailure" NetworkFailure]
  from w [THEN conjunct1] e
  have 1: "github_uri ''octocat'' =
      ''https://api.github.com/users/octocat/repos?per_page=5&sort=created:asc''"
    by simp
  have "split_on CHR ''/'' (uri_location (github_uri ''octocat'')) =
        [''https:'', [], ''api.github.com'', ''users'', encodeURI ''octocat'', ''repos''] \<and>
      uri_query (github_uri ''octocat'') = [(''per_page'', ''5''), (''sort'', ''created:asc'')]"
    by (rule mp [OF w [THEN conjunct2, THEN conjunct1]]) (intro conjI c)
  then have 2: "split_on CHR ''/'' (uri_location (github_uri ''octocat'')) =
      [''https:'', [], ''api.github.com'', ''users'', ''octocat'', ''repos'']"
    and 3: "uri_query (github_uri ''octocat'') = [(''per_page'', ''5''), (''sort'', ''created:asc'')]"
    by (simp_all only: e)
  from th [of "''s3cr3t''" demo_config "\<lambda>uri hs. Inl NetworkFailure" NetworkFailure] t
  have 4: "fetchGithubRepos (\<lambda>uri hs. Inl NetworkFailure) demo_config ''octocat'' =
     (404, MsgJson ''No Github profile found!!!!'')" by simp
  from th [of "''s3cr3t''" demo_config "\<lambda>uri hs. Inl (HttpStatus 401)" "HttpStatus 401"] t
  have 5: "fetchGithubRepos (\<lambda>uri hs. Inl (HttpStatus 401)) demo_config ''octocat'' =
     (404, MsgJson ''No Github profile found!!!!'')" by simp
  from th [of "''s3cr3t''" demo_config "\<lambda>uri hs. Inl (HttpStatus 404)" "HttpStatus 404"] t
  have 6: "fetchGithubRepos (\<lambda>uri hs. Inl (HttpStatus 404)) demo_config ''octocat'' =
     (404, MsgJson ''No Github profile found!!!!'')" by simp
  from th [of "''s3cr3t''" "\<lparr>githubToken = None\<rparr>" "\<lambda>uri hs. Inr ''[]''"]
  have 7: "fetchGithubRepos (\<lambda>uri hs. Inr ''[]'') \<lparr>githubToken = None\<rparr> ''octocat'' =
     (404, MsgJson ''No Github profile found!!!!'')" by simp
  from th [of "''s3cr3t''" demo_config octocat_only _ "''[]''"] t o
  have 8: "fetchGithubRepos octocat_only demo_config ''octocat'' = (200, DataJson ''[]'')"
    by simp
  from t c 1 2 3 4 5 6 7 8 show ?thesis by (intro conjI)
qed

subsection \<open>Removing an entry that the sequence holds\<close>

text \<open>
  For an id that an entry has, the handlers remove the first entry with that id and
  nothing else.
\<close>

lemma splice_at:
  assumes "0 \<le> i" and "i < int (length xs)"
  shows "splice i 1 xs = take (nat i) xs @ drop (Suc (nat i)) xs"
proof -
  from assms have a: "min i (int (length xs)) = i" by simp
  from assms have b: "min 1 (int (length xs) - i) = (1::int)" by simp
  from assms have c: "nat (i + 1) = Suc (nat i)" by simp
  from assms have d: "\<not> i < 0" by simp
  show ?thesis
    by (simp add: splice_def Let_def a b c d)
qed

lemma indexOf_Cons_other:
  "x \<noteq> v \<Longrightarrow> v \<in> set xs \<Longrightarrow> nat (indexOf (x # xs) v) = Suc (nat (indexOf xs v))"
proof -
  assume "x \<noteq> v" and "v \<in> set xs"
  from indexOf_present [OF this(2)] have "0 \<le> indexOf xs v" by simp
  with \<open>x \<noteq> v\<close> show ?thesis by (simp add: Let_def nat_add_distrib)
qed

lemma remove_first_at_index:
  "v \<in> set (map f es) \<Longrightarrow>
   remove_first (\<lambda>e. f e = v) es =
     take (nat (indexOf (map f es) v)) es @ drop (Suc (nat (indexOf (map f es) v))) es"
proof (induction es)
  case Nil
  then show ?case by simp
next
  case (Cons e es)
  show ?case
  proof (cases "f e = v")
    case True
    then show ?thesis by simp
  next
    case False
    with Cons.prems have v: "v \<in> set (map f es)" by simp
    from indexOf_Cons_other [OF False v]
    have "nat (indexOf (map f (e # es)) v) = Suc (nat (indexOf (map f es) v))" by simp
    with False Cons.IH [OF v] show ?thesis by simp
  qed
qed

lemma remove_by_index:
  assumes "v \<in> set (map f es)"
  shows "splice (indexOf (map f es) v) 1 es = remove_first (\<lambda>e. f e = v) es"
proof -
  from indexOf_present [OF assms]
  have "0 \<le> indexOf (map f es) v" and "indexOf (map f es) v < int (length es)"
    by auto
  from splice_at [OF this] remove_first_at_index [OF assms] show ?thesis by simp
qed

lemma remove_experience_entry_present:
  "entry_id \<in> set (map exp_id es) \<Longrightarrow>
   remove_experience_entry entry_id es = remove_first (\<lambda>e. exp_id e = entry_id) es"
  by (simp only: remove_experience_entry_def Let_def remove_by_index)

lemma remove_education_entry_present:
  "entry_id \<in> set (map edu_id es) \<Longrightarrow>
   remove_education_entry entry_id es = remove_first (\<lambda>e. edu_id e = entry_id) es"
  by (simp only: remove_education_entry_def Let_def remove_by_index)

end
